theory Spec2Isabelle
  imports Main "HOL-Library.Word" "HOL-Library.Char_ord" "HOL-Library.List_Lexorder"
    "HOL-Library.Multiset"
begin

unbundle bit_operations_syntax

section \<open>Data model of package cert (crypto/cert/cert.go)\<close>

text \<open>
  A Go byte is an 8-bit word, a byte slice the list of its bytes, a Go string the list of
  its bytes as characters. The nil slice is not distinguished from the empty one: every
  slice below stands for a non-nil slice.
\<close>

type_synonym byte = "8 word"

definition CertVersion :: "32 word" where
  "CertVersion = 0"

definition CertKeyType_const :: string where
  "CertKeyType_const = ''ed25519''"

definition hourSeconds :: "64 word" where
  "hourSeconds = 60 * 60"

record Signature =
  Identity :: "byte list"
  Payload :: "byte list"

record Certificate =
  Version :: "32 word"
  Type :: string
  Expiration :: "64 word"
  CertKeyType :: string
  Certified :: "byte list"
  Signatures :: "Signature list"

text \<open>The zero value \<^verbatim>\<open>Certificate{}\<close> that the verifiers decode into.\<close>

definition zero_Certificate :: Certificate where
  "zero_Certificate =
     \<lparr>Version = 0, Type = [], Expiration = 0, CertKeyType = [], Certified = [],
      Signatures = []\<rparr>"

datatype error =
    ErrDecode
  | ErrEncode
  | ErrWrite
  | ErrOneSignatureOnly
  | ErrCertificateExpired

section \<open>The canonical message\<close>

text \<open>\<^verbatim>\<open>[]byte(s)\<close> for a Go string.\<close>

definition bytes_of :: "string \<Rightarrow> byte list" where
  "bytes_of s = map of_char s"

text \<open>
  \<^verbatim>\<open>binary.LittleEndian.PutUint32\<close> and \<^verbatim>\<open>PutUint64\<close>: byte \<open>i\<close> is
  \<^verbatim>\<open>byte(v >> (8*i))\<close>.
\<close>

fun le_bytes :: "nat \<Rightarrow> 'a::len word \<Rightarrow> byte list" where
  "le_bytes 0 w = []"
| "le_bytes (Suc n) w = ucast w # le_bytes n (drop_bit 8 w)"

text \<open>
  \<^verbatim>\<open>binary.Write(buf, binary.LittleEndian, v)\<close> on a \<^verbatim>\<open>bytes.Buffer\<close> for a
  fixed-size unsigned value, and \<^verbatim>\<open>buf.Write(p)\<close>: both append and return a nil error.
\<close>

definition binary_Write :: "byte list \<Rightarrow> nat \<Rightarrow> 'a::len word \<Rightarrow> error + byte list" where
  "binary_Write buf n v = Inr (buf @ le_bytes n v)"

definition Buffer_Write :: "byte list \<Rightarrow> byte list \<Rightarrow> error + byte list" where
  "Buffer_Write buf p = Inr (buf @ p)"

definition message :: "Certificate \<Rightarrow> error + byte list" where
  "message c =
     (case binary_Write [] 4 (Version c) of
        Inl err \<Rightarrow> Inl err
      | Inr m1 \<Rightarrow>
     (case Buffer_Write m1 (bytes_of (Type c)) of
        Inl err \<Rightarrow> Inl err
      | Inr m2 \<Rightarrow>
     (case binary_Write m2 8 (Expiration c) of
        Inl err \<Rightarrow> Inl err
      | Inr m3 \<Rightarrow>
     (case Buffer_Write m3 (bytes_of (CertKeyType c)) of
        Inl err \<Rightarrow> Inl err
      | Inr m4 \<Rightarrow> Buffer_Write m4 (Certified c)))))"

text \<open>
  The canonical message in the words of the specification: the 4-byte little-endian
  unsigned version, the raw bytes of the declared type, the 8-byte little-endian unsigned
  expiration, the raw bytes of the key algorithm and the raw bytes of the payload, where
  byte \<open>i\<close> of the little-endian form of \<open>n\<close> is \<open>n div 256 ^ i mod 256\<close>.
\<close>

definition spec_le :: "nat \<Rightarrow> nat \<Rightarrow> byte list" where
  "spec_le k n = map (\<lambda>i. of_nat (n div 256 ^ i mod 256)) [0..<k]"

definition spec_message ::
  "32 word \<Rightarrow> string \<Rightarrow> 64 word \<Rightarrow> string \<Rightarrow> byte list \<Rightarrow> byte list" where
  "spec_message version declaredType expirationHours keyAlgorithm certifiedPayload =
     spec_le 4 (unat version) @ map of_char declaredType @
     spec_le 8 (unat expirationHours) @ map of_char keyAlgorithm @ certifiedPayload"

definition canonical :: "Certificate \<Rightarrow> byte list" where
  "canonical c =
     spec_message (Version c) (Type c) (Expiration c) (CertKeyType c) (Certified c)"

section \<open>The collaborators of package cert\<close>

subsection \<open>Package eddsa\<close>

text \<open>
  Package \<^verbatim>\<open>crypto/eddsa\<close> is not part of the sources at hand; \<^verbatim>\<open>cert.go\<close> uses three
  of its operations, which are taken as a parameter of every function below. A private
  key is the byte string given to \<^verbatim>\<open>FromBytes\<close>, a public key the byte string that
  \<^verbatim>\<open>Bytes()\<close> returns.
  \<^item> \<open>PublicKey E sk\<close> is \<^verbatim>\<open>sk.PublicKey().Bytes()\<close>;
  \<^item> \<open>Sign E sk m\<close> is \<^verbatim>\<open>sk.Sign(m)\<close>;
  \<^item> \<open>Verify E pk sig m\<close> is \<^verbatim>\<open>pk.Verify(sig, m)\<close>.
\<close>

record eddsa =
  PublicKey :: "byte list \<Rightarrow> byte list"
  Sign :: "byte list \<Rightarrow> byte list \<Rightarrow> byte list"
  Verify :: "byte list \<Rightarrow> byte list \<Rightarrow> byte list \<Rightarrow> bool"

text \<open>
  Modelled from the spec: what the specification says of the signature scheme of the absent
  package eddsa, a scheme with a fixed-size public key (32 bytes) and a fixed-size
  signature (64 bytes, 512 bits), in which a signature made with a private key verifies
  under the corresponding public key.
\<close>

definition eddsa_scheme :: "eddsa \<Rightarrow> bool" where
  "eddsa_scheme E \<longleftrightarrow>
     (\<forall>sk. length (PublicKey E sk) = 32) \<and>
     (\<forall>sk m. length (Sign E sk m) = 64) \<and>
     (\<forall>sk m. Verify E (PublicKey E sk) (Sign E sk m) m)"

subsection \<open>Package time\<close>

text \<open>
  An instant of Go's \<^verbatim>\<open>time.Time\<close>, as the seconds since the Unix epoch and the
  nanoseconds within the second. The library keeps the seconds since the year 1 in an
  \<^verbatim>\<open>int64\<close>: \<^verbatim>\<open>time.Unix(sec, nsec)\<close> stores \<^verbatim>\<open>sec + unixToInternal\<close>, which wraps
  around at 64 bits, and \<^verbatim>\<open>t.Before(u)\<close> orders the instants by that count and then by
  the nanoseconds. The clock \<^verbatim>\<open>time.Now()\<close> is the parameter \<open>now\<close> of the verifiers.
\<close>

record Time =
  sec :: int
  nsec :: nat

definition unixToInternal :: "64 word" where
  "unixToInternal = 62135596800"

definition time_Unix :: "64 word \<Rightarrow> nat \<Rightarrow> Time" where
  "time_Unix s n =
     \<lparr>sec = sint (s + word_of_nat (n div 1000000000) + unixToInternal) - sint unixToInternal,
      nsec = n mod 1000000000\<rparr>"

definition Before :: "Time \<Rightarrow> Time \<Rightarrow> bool" where
  "Before t u \<longleftrightarrow> sec t < sec u \<or> (sec t = sec u \<and> nsec t < nsec u)"

subsection \<open>The CBOR codec\<close>

text \<open>
  Modelled from the spec: the codec (\<^verbatim>\<open>github.com/ugorji/go/codec\<close> with a
  \<^verbatim>\<open>CborHandle\<close>) is an external library, absent from the sources. The encoder follows
  sections 4.2 and 6 of the specification and the reference vectors of the package's tests:
  a struct is a definite-length map from its field names, as text items, to its field
  values, the entries sorted by field name; unsigned integers are unsigned-integer items,
  strings text items, byte slices byte-string items, a slice of structs a definite-length
  array; every length and integer takes its shortest head.
\<close>

definition cborBaseUint :: byte where "cborBaseUint = 0x00"
definition cborBaseBytes :: byte where "cborBaseBytes = 0x40"
definition cborBaseString :: byte where "cborBaseString = 0x60"
definition cborBaseArray :: byte where "cborBaseArray = 0x80"
definition cborBaseMap :: byte where "cborBaseMap = 0xa0"

text \<open>Big-endian bytes of a number, \<open>k\<close> of them, and back.\<close>

fun be_bytes :: "nat \<Rightarrow> nat \<Rightarrow> byte list" where
  "be_bytes 0 n = []"
| "be_bytes (Suc k) n = be_bytes k (n div 256) @ [of_nat n]"

definition be_nat :: "byte list \<Rightarrow> nat" where
  "be_nat bs = foldl (\<lambda>a b. a * 256 + unat b) 0 bs"

definition encUint :: "nat \<Rightarrow> byte \<Rightarrow> byte list" where
  "encUint v bd =
     (if v \<le> 0x17 then [of_nat v + bd]
      else if v \<le> 0xff then [bd + 0x18, of_nat v]
      else if v \<le> 0xffff then (bd + 0x19) # be_bytes 2 v
      else if v \<le> 0xffffffff then (bd + 0x1a) # be_bytes 4 v
      else (bd + 0x1b) # be_bytes 8 v)"

definition EncodeUint :: "nat \<Rightarrow> byte list" where
  "EncodeUint v = encUint v cborBaseUint"

definition EncodeString :: "string \<Rightarrow> byte list" where
  "EncodeString s = encUint (length s) cborBaseString @ bytes_of s"

definition EncodeStringBytesRaw :: "byte list \<Rightarrow> byte list" where
  "EncodeStringBytesRaw bs = encUint (length bs) cborBaseBytes @ bs"

text \<open>
  A struct: its fields in the order of declaration, each a name and the encoding of its
  value; the map has them sorted by name.
\<close>

definition encode_struct :: "(string \<times> byte list) list \<Rightarrow> byte list" where
  "encode_struct fs =
     encUint (length fs) cborBaseMap @
     concat (map (\<lambda>(name, v). EncodeString name @ v) (sort_key fst fs))"

definition Signature_fields :: "Signature \<Rightarrow> (string \<times> byte list) list" where
  "Signature_fields s =
     [(''Identity'', EncodeStringBytesRaw (Identity s)),
      (''Payload'', EncodeStringBytesRaw (Payload s))]"

definition encode_Signature :: "Signature \<Rightarrow> byte list" where
  "encode_Signature s = encode_struct (Signature_fields s)"

definition encode_Signatures :: "Signature list \<Rightarrow> byte list" where
  "encode_Signatures ss =
     encUint (length ss) cborBaseArray @ concat (map encode_Signature ss)"

definition Certificate_fields :: "Certificate \<Rightarrow> (string \<times> byte list) list" where
  "Certificate_fields c =
     [(''Version'', EncodeUint (unat (Version c))),
      (''Type'', EncodeString (Type c)),
      (''Expiration'', EncodeUint (unat (Expiration c))),
      (''CertKeyType'', EncodeString (CertKeyType c)),
      (''Certified'', EncodeStringBytesRaw (Certified c)),
      (''Signatures'', encode_Signatures (Signatures c))]"

definition Encode :: "Certificate \<Rightarrow> error + byte list" where
  "Encode c = Inr (encode_struct (Certificate_fields c))"

text \<open>
  Modelled from the spec: the decoder of the same absent library, which reads one item
  from the front of the input into a struct. It reads a definite-length map whose keys are
  field names, in any order, each value of the major type of its field; a field that the
  map does not name keeps the value it had. Truncated input, another major type, a name
  that is no field, an integer too large for its field and an indefinite length are
  decoding errors.
\<close>

definition dec_head :: "byte list \<Rightarrow> (nat \<times> nat \<times> byte list) option" where
  "dec_head bs =
     (case bs of
        [] \<Rightarrow> None
      | b # rest \<Rightarrow>
          (let major = unat b div 32; v = unat b mod 32 in
           if v < 24 then Some (major, v, rest)
           else if v \<le> 27 then
             (let k = 2 ^ (v - 24) in
              if length rest < k then None
              else Some (major, be_nat (take k rest), drop k rest))
           else None))"

definition DecodeUint :: "nat \<Rightarrow> byte list \<Rightarrow> (nat \<times> byte list) option" where
  "DecodeUint bitsize bs =
     (case dec_head bs of
        None \<Rightarrow> None
      | Some (major, v, rest) \<Rightarrow>
          if major = 0 \<and> v < 2 ^ bitsize then Some (v, rest) else None)"

definition DecodeBytes :: "byte list \<Rightarrow> (byte list \<times> byte list) option" where
  "DecodeBytes bs =
     (case dec_head bs of
        None \<Rightarrow> None
      | Some (major, n, rest) \<Rightarrow>
          if major = 2 \<and> n \<le> length rest then Some (take n rest, drop n rest) else None)"

definition DecodeString :: "byte list \<Rightarrow> (string \<times> byte list) option" where
  "DecodeString bs =
     (case dec_head bs of
        None \<Rightarrow> None
      | Some (major, n, rest) \<Rightarrow>
          if major = 3 \<and> n \<le> length rest
          then Some (map (\<lambda>b. char_of (unat b)) (take n rest), drop n rest)
          else None)"

definition decode_Signature_field ::
  "string \<Rightarrow> Signature \<Rightarrow> byte list \<Rightarrow> (Signature \<times> byte list) option" where
  "decode_Signature_field name s bs =
     (if name = ''Identity'' then
        (case DecodeBytes bs of
           None \<Rightarrow> None
         | Some (v, rest) \<Rightarrow> Some (s\<lparr>Identity := v\<rparr>, rest))
      else if name = ''Payload'' then
        (case DecodeBytes bs of
           None \<Rightarrow> None
         | Some (v, rest) \<Rightarrow> Some (s\<lparr>Payload := v\<rparr>, rest))
      else None)"

fun decode_Signature_fields ::
  "nat \<Rightarrow> Signature \<Rightarrow> byte list \<Rightarrow> (Signature \<times> byte list) option" where
  "decode_Signature_fields 0 s bs = Some (s, bs)"
| "decode_Signature_fields (Suc n) s bs =
     (case DecodeString bs of
        None \<Rightarrow> None
      | Some (name, rest) \<Rightarrow>
          (case decode_Signature_field name s rest of
             None \<Rightarrow> None
           | Some (s', rest') \<Rightarrow> decode_Signature_fields n s' rest'))"

definition decode_Signature :: "byte list \<Rightarrow> (Signature \<times> byte list) option" where
  "decode_Signature bs =
     (case dec_head bs of
        None \<Rightarrow> None
      | Some (major, n, rest) \<Rightarrow>
          if major = 5
          then decode_Signature_fields n \<lparr>Identity = [], Payload = []\<rparr> rest
          else None)"

fun decode_Signature_elems ::
  "nat \<Rightarrow> byte list \<Rightarrow> (Signature list \<times> byte list) option" where
  "decode_Signature_elems 0 bs = Some ([], bs)"
| "decode_Signature_elems (Suc n) bs =
     (case decode_Signature bs of
        None \<Rightarrow> None
      | Some (s, rest) \<Rightarrow>
          (case decode_Signature_elems n rest of
             None \<Rightarrow> None
           | Some (ss, rest') \<Rightarrow> Some (s # ss, rest')))"

definition decode_Signatures :: "byte list \<Rightarrow> (Signature list \<times> byte list) option" where
  "decode_Signatures bs =
     (case dec_head bs of
        None \<Rightarrow> None
      | Some (major, n, rest) \<Rightarrow>
          if major = 4 then decode_Signature_elems n rest else None)"

definition decode_Certificate_field ::
  "string \<Rightarrow> Certificate \<Rightarrow> byte list \<Rightarrow> (Certificate \<times> byte list) option" where
  "decode_Certificate_field name c bs =
     (if name = ''Version'' then
        (case DecodeUint 32 bs of
           None \<Rightarrow> None
         | Some (v, rest) \<Rightarrow> Some (c\<lparr>Version := of_nat v\<rparr>, rest))
      else if name = ''Type'' then
        (case DecodeString bs of
           None \<Rightarrow> None
         | Some (v, rest) \<Rightarrow> Some (c\<lparr>Type := v\<rparr>, rest))
      else if name = ''Expiration'' then
        (case DecodeUint 64 bs of
           None \<Rightarrow> None
         | Some (v, rest) \<Rightarrow> Some (c\<lparr>Expiration := of_nat v\<rparr>, rest))
      else if name = ''CertKeyType'' then
        (case DecodeString bs of
           None \<Rightarrow> None
         | Some (v, rest) \<Rightarrow> Some (c\<lparr>CertKeyType := v\<rparr>, rest))
      else if name = ''Certified'' then
        (case DecodeBytes bs of
           None \<Rightarrow> None
         | Some (v, rest) \<Rightarrow> Some (c\<lparr>Certified := v\<rparr>, rest))
      else if name = ''Signatures'' then
        (case decode_Signatures bs of
           None \<Rightarrow> None
         | Some (v, rest) \<Rightarrow> Some (c\<lparr>Signatures := v\<rparr>, rest))
      else None)"

fun decode_Certificate_fields ::
  "nat \<Rightarrow> Certificate \<Rightarrow> byte list \<Rightarrow> (Certificate \<times> byte list) option" where
  "decode_Certificate_fields 0 c bs = Some (c, bs)"
| "decode_Certificate_fields (Suc n) c bs =
     (case DecodeString bs of
        None \<Rightarrow> None
      | Some (name, rest) \<Rightarrow>
          (case decode_Certificate_field name c rest of
             None \<Rightarrow> None
           | Some (c', rest') \<Rightarrow> decode_Certificate_fields n c' rest'))"

definition Decode :: "byte list \<Rightarrow> Certificate \<Rightarrow> error + Certificate" where
  "Decode rawCert c =
     (case dec_head rawCert of
        None \<Rightarrow> Inl ErrDecode
      | Some (major, n, rest) \<Rightarrow>
          if major = 5 then
            (case decode_Certificate_fields n c rest of
               None \<Rightarrow> Inl ErrDecode
             | Some (c', _) \<Rightarrow> Inr c')
          else Inl ErrDecode)"

section \<open>The operations of package cert\<close>

definition CreateCertificate ::
  "eddsa \<Rightarrow> byte list \<Rightarrow> byte list \<Rightarrow> string \<Rightarrow> 64 word \<Rightarrow> error + byte list" where
  "CreateCertificate E signingKey toSign certType expiration =
     (let cert = \<lparr>Version = CertVersion, Type = certType, Expiration = expiration,
                  CertKeyType = CertKeyType_const, Certified = toSign, Signatures = []\<rparr>
      in case message cert of
           Inl err \<Rightarrow> Inl err
         | Inr mesg \<Rightarrow>
             (let cert = cert\<lparr>Signatures :=
                    [\<lparr>Identity = PublicKey E signingKey,
                      Payload = Sign E signingKey mesg\<rparr>]\<rparr>
              in case Encode cert of
                   Inl err \<Rightarrow> Inl err
                 | Inr out \<Rightarrow> Inr out))"

text \<open>
  The verifiers return \<^verbatim>\<open>(bool, error)\<close>: \<open>Inl err\<close> is \<^verbatim>\<open>(false, err)\<close> and
  \<open>Inr b\<close> is \<^verbatim>\<open>(b, nil)\<close>. The expiry instant is
  \<^verbatim>\<open>time.Unix(int64(cert.Expiration*hourSeconds), 0)\<close>: the product wraps around at 64
  bits and the conversion reads it as a signed number.
\<close>

definition expiry :: "Certificate \<Rightarrow> Time" where
  "expiry cert = time_Unix (Expiration cert * hourSeconds) 0"

definition VerifyCertificate :: "eddsa \<Rightarrow> Time \<Rightarrow> byte list \<Rightarrow> byte list \<Rightarrow> error + bool" where
  "VerifyCertificate E now rawCert publicKey =
     (case Decode rawCert zero_Certificate of
        Inl err \<Rightarrow> Inl err
      | Inr cert \<Rightarrow>
          if length (Signatures cert) \<noteq> 1 then Inl ErrOneSignatureOnly
          else
            (case message cert of
               Inl err \<Rightarrow> Inl err
             | Inr mesg \<Rightarrow>
                 if Before (expiry cert) now then Inl ErrCertificateExpired
                 else Inr (Verify E publicKey (Payload (Signatures cert ! 0)) mesg)))"

text \<open>The loop of \<^verbatim>\<open>VerifyMulti\<close> over the signatures, in their order.\<close>

fun VerifyMulti_range ::
  "eddsa \<Rightarrow> Certificate \<Rightarrow> byte list \<Rightarrow> Signature list \<Rightarrow> error + bool" where
  "VerifyMulti_range E cert publicKey [] = Inr False"
| "VerifyMulti_range E cert publicKey (sig # sigs) =
     (if publicKey = Identity sig then
        (case message cert of
           Inl err \<Rightarrow> Inl err
         | Inr mesg \<Rightarrow> Inr (Verify E publicKey (Payload sig) mesg))
      else VerifyMulti_range E cert publicKey sigs)"

definition VerifyMulti :: "eddsa \<Rightarrow> Time \<Rightarrow> byte list \<Rightarrow> byte list \<Rightarrow> error + bool" where
  "VerifyMulti E now rawCert publicKey =
     (case Decode rawCert zero_Certificate of
        Inl err \<Rightarrow> Inl err
      | Inr cert \<Rightarrow>
          if Before (expiry cert) now then Inl ErrCertificateExpired
          else VerifyMulti_range E cert publicKey (Signatures cert))"

definition SignMultiCertificate :: "eddsa \<Rightarrow> byte list \<Rightarrow> byte list \<Rightarrow> error + byte list" where
  "SignMultiCertificate E signingKey rawCert =
     (case Decode rawCert zero_Certificate of
        Inl err \<Rightarrow> Inl err
      | Inr cert \<Rightarrow>
          (case message cert of
             Inl err \<Rightarrow> Inl err
           | Inr mesg \<Rightarrow>
               (let signature = \<lparr>Identity = PublicKey E signingKey,
                                 Payload = Sign E signingKey mesg\<rparr>;
                    cert = cert\<lparr>Signatures := Signatures cert @ [signature]\<rparr>
                in case Encode cert of
                     Inl err \<Rightarrow> Inl err
                   | Inr out \<Rightarrow> Inr out)))"

section \<open>Inputs that exist in Go\<close>

text \<open>
  A Go slice or string has a length that a 64-bit length head can hold; lists of HOL have
  no such bound.
\<close>

definition len64 :: "'a list \<Rightarrow> bool" where
  "len64 xs \<longleftrightarrow> length xs < 2 ^ 64"

definition Signature_ok :: "Signature \<Rightarrow> bool" where
  "Signature_ok s \<longleftrightarrow> len64 (Identity s) \<and> len64 (Payload s)"

definition Certificate_ok :: "Certificate \<Rightarrow> bool" where
  "Certificate_ok c \<longleftrightarrow>
     len64 (Type c) \<and> len64 (CertKeyType c) \<and> len64 (Certified c) \<and>
     len64 (Signatures c) \<and> list_all Signature_ok (Signatures c)"

text \<open>
  The expirations, in hours, whose expiry instant the verifiers compute exactly: neither
  the product with \<open>hourSeconds\<close> nor the count of seconds since the year 1 leaves the
  range of \<^verbatim>\<open>int64\<close>. The instant is then \<open>hours * 3600\<close> seconds after the Unix epoch.
\<close>

definition exact_expiry :: "64 word \<Rightarrow> bool" where
  "exact_expiry hours \<longleftrightarrow> unat hours * 3600 + 62135596800 < 2 ^ 63"

definition expiry_instant :: "64 word \<Rightarrow> Time" where
  "expiry_instant hours = \<lparr>sec = int (unat hours) * 3600, nsec = 0\<rparr>"

section \<open>Concrete instances\<close>

text \<open>
  A scheme for the concrete instances below. It is no secure signature scheme, but it has
  the sizes of the keys and signatures of \<open>eddsa_scheme\<close>, and a signature verifies under
  the public key of the private key that made it and under no other public key.
\<close>

definition toy_PublicKey :: "byte list \<Rightarrow> byte list" where
  "toy_PublicKey sk = take 32 (sk @ replicate 32 0)"

definition toy_tag :: "byte list \<Rightarrow> byte list \<Rightarrow> byte list" where
  "toy_tag pk m = take 64 (pk @ m @ replicate 64 0)"

definition toy_eddsa :: eddsa where
  "toy_eddsa =
     \<lparr>PublicKey = toy_PublicKey,
      Sign = (\<lambda>sk m. toy_tag (toy_PublicKey sk) m),
      Verify = (\<lambda>pk sig m. sig = toy_tag pk m)\<rparr>"

definition now_2023 :: Time where
  "now_2023 = \<lparr>sec = 1700000000, nsec = 0\<rparr>"

text \<open>
  A certificate of version 1 for the key algorithm \<open>rsa\<close>, with one signature that the
  private key \<open>[1]\<close> of the scheme above makes over its canonical message, and its
  encoding.
\<close>

definition cert_v1 :: Certificate where
  "cert_v1 =
     \<lparr>Version = 1, Type = ''authority'', Expiration = 5259504, CertKeyType = ''rsa'',
      Certified = [42],
      Signatures =
        [\<lparr>Identity =
            [1, 0, 0, 0, 0, 0, 0, 0, 0, 0, 0, 0, 0, 0, 0, 0,
             0, 0, 0, 0, 0, 0, 0, 0, 0, 0, 0, 0, 0, 0, 0, 0],
          Payload =
            [1, 0, 0, 0, 0, 0, 0, 0, 0, 0, 0, 0, 0, 0, 0, 0,
             0, 0, 0, 0, 0, 0, 0, 0, 0, 0, 0, 0, 0, 0, 0, 0,
             1, 0, 0, 0, 97, 117, 116, 104, 111, 114, 105, 116, 121, 240, 64, 80,
             0, 0, 0, 0, 0, 114, 115, 97, 42, 0, 0, 0, 0, 0, 0, 0]\<rparr>]\<rparr>"

definition blob_v1 :: "byte list" where
  "blob_v1 =
     [166, 107, 67, 101, 114, 116, 75, 101, 121, 84, 121, 112, 101, 99, 114, 115,
      97, 105, 67, 101, 114, 116, 105, 102, 105, 101, 100, 65, 42, 106, 69, 120,
      112, 105, 114, 97, 116, 105, 111, 110, 26, 0, 80, 64, 240, 106, 83, 105,
      103, 110, 97, 116, 117, 114, 101, 115, 129, 162, 104, 73, 100, 101, 110, 116,
      105, 116, 121, 88, 32, 1, 0, 0, 0, 0, 0, 0, 0, 0, 0, 0,
      0, 0, 0, 0, 0, 0, 0, 0, 0, 0, 0, 0, 0, 0, 0, 0,
      0, 0, 0, 0, 0, 103, 80, 97, 121, 108, 111, 97, 100, 88, 64, 1,
      0, 0, 0, 0, 0, 0, 0, 0, 0, 0, 0, 0, 0, 0, 0, 0,
      0, 0, 0, 0, 0, 0, 0, 0, 0, 0, 0, 0, 0, 0, 0, 1,
      0, 0, 0, 97, 117, 116, 104, 111, 114, 105, 116, 121, 240, 64, 80, 0,
      0, 0, 0, 0, 114, 115, 97, 42, 0, 0, 0, 0, 0, 0, 0, 100,
      84, 121, 112, 101, 105, 97, 117, 116, 104, 111, 114, 105, 116, 121, 103, 86,
      101, 114, 115, 105, 111, 110, 1]"

text \<open>
  A certificate that expired one hour after the Unix epoch, with the signatures of the
  private keys \<open>[1]\<close> and \<open>[2]\<close>, and its encoding.
\<close>

definition cert_expired :: Certificate where
  "cert_expired =
     \<lparr>Version = 0, Type = ''authority'', Expiration = 1, CertKeyType = ''ed25519'',
      Certified = [42],
      Signatures =
        [\<lparr>Identity =
            [1, 0, 0, 0, 0, 0, 0, 0, 0, 0, 0, 0, 0, 0, 0, 0,
             0, 0, 0, 0, 0, 0, 0, 0, 0, 0, 0, 0, 0, 0, 0, 0],
          Payload =
            [1, 0, 0, 0, 0, 0, 0, 0, 0, 0, 0, 0, 0, 0, 0, 0,
             0, 0, 0, 0, 0, 0, 0, 0, 0, 0, 0, 0, 0, 0, 0, 0,
             0, 0, 0, 0, 97, 117, 116, 104, 111, 114, 105, 116, 121, 1, 0, 0,
             0, 0, 0, 0, 0, 101, 100, 50, 53, 53, 49, 57, 42, 0, 0, 0]\<rparr>,
         \<lparr>Identity =
            [2, 0, 0, 0, 0, 0, 0, 0, 0, 0, 0, 0, 0, 0, 0, 0,
             0, 0, 0, 0, 0, 0, 0, 0, 0, 0, 0, 0, 0, 0, 0, 0],
          Payload =
            [2, 0, 0, 0, 0, 0, 0, 0, 0, 0, 0, 0, 0, 0, 0, 0,
             0, 0, 0, 0, 0, 0, 0, 0, 0, 0, 0, 0, 0, 0, 0, 0,
             0, 0, 0, 0, 97, 117, 116, 104, 111, 114, 105, 116, 121, 1, 0, 0,
             0, 0, 0, 0, 0, 101, 100, 50, 53, 53, 49, 57, 42, 0, 0, 0]\<rparr>]\<rparr>"

definition blob_expired :: "byte list" where
  "blob_expired =
     [166, 107, 67, 101, 114, 116, 75, 101, 121, 84, 121, 112, 101, 103, 101, 100,
      50, 53, 53, 49, 57, 105, 67, 101, 114, 116, 105, 102, 105, 101, 100, 65,
      42, 106, 69, 120, 112, 105, 114, 97, 116, 105, 111, 110, 1, 106, 83, 105,
      103, 110, 97, 116, 117, 114, 101, 115, 130, 162, 104, 73, 100, 101, 110, 116,
      105, 116, 121, 88, 32, 1, 0, 0, 0, 0, 0, 0, 0, 0, 0, 0,
      0, 0, 0, 0, 0, 0, 0, 0, 0, 0, 0, 0, 0, 0, 0, 0,
      0, 0, 0, 0, 0, 103, 80, 97, 121, 108, 111, 97, 100, 88, 64, 1,
      0, 0, 0, 0, 0, 0, 0, 0, 0, 0, 0, 0, 0, 0, 0, 0,
      0, 0, 0, 0, 0, 0, 0, 0, 0, 0, 0, 0, 0, 0, 0, 0,
      0, 0, 0, 97, 117, 116, 104, 111, 114, 105, 116, 121, 1, 0, 0, 0,
      0, 0, 0, 0, 101, 100, 50, 53, 53, 49, 57, 42, 0, 0, 0, 162,
      104, 73, 100, 101, 110, 116, 105, 116, 121, 88, 32, 2, 0, 0, 0, 0,
      0, 0, 0, 0, 0, 0, 0, 0, 0, 0, 0, 0, 0, 0, 0, 0,
      0, 0, 0, 0, 0, 0, 0, 0, 0, 0, 0, 103, 80, 97, 121, 108,
      111, 97, 100, 88, 64, 2, 0, 0, 0, 0, 0, 0, 0, 0, 0, 0,
      0, 0, 0, 0, 0, 0, 0, 0, 0, 0, 0, 0, 0, 0, 0, 0,
      0, 0, 0, 0, 0, 0, 0, 0, 0, 97, 117, 116, 104, 111, 114, 105,
      116, 121, 1, 0, 0, 0, 0, 0, 0, 0, 101, 100, 50, 53, 53, 49,
      57, 42, 0, 0, 0, 100, 84, 121, 112, 101, 105, 97, 117, 116, 104, 111,
      114, 105, 116, 121, 103, 86, 101, 114, 115, 105, 111, 110, 0]"

text \<open>
  A certificate with two signatures of the identity of the private key \<open>[1]\<close>: the
  first is not a signature of the canonical message, the second is.
\<close>

definition cert_dup :: Certificate where
  "cert_dup =
     \<lparr>Version = 0, Type = ''authority'', Expiration = 5259504, CertKeyType = ''ed25519'',
      Certified = [42],
      Signatures =
        [\<lparr>Identity =
            [1, 0, 0, 0, 0, 0, 0, 0, 0, 0, 0, 0, 0, 0, 0, 0,
             0, 0, 0, 0, 0, 0, 0, 0, 0, 0, 0, 0, 0, 0, 0, 0],
          Payload =
            [0]\<rparr>,
         \<lparr>Identity =
            [1, 0, 0, 0, 0, 0, 0, 0, 0, 0, 0, 0, 0, 0, 0, 0,
             0, 0, 0, 0, 0, 0, 0, 0, 0, 0, 0, 0, 0, 0, 0, 0],
          Payload =
            [1, 0, 0, 0, 0, 0, 0, 0, 0, 0, 0, 0, 0, 0, 0, 0,
             0, 0, 0, 0, 0, 0, 0, 0, 0, 0, 0, 0, 0, 0, 0, 0,
             0, 0, 0, 0, 97, 117, 116, 104, 111, 114, 105, 116, 121, 240, 64, 80,
             0, 0, 0, 0, 0, 101, 100, 50, 53, 53, 49, 57, 42, 0, 0, 0]\<rparr>]\<rparr>"

text \<open>
  The certificate that the private key \<open>[1]\<close> creates for the payload \<open>[42]\<close> and the
  largest expiration, \<open>2 ^ 64 - 1\<close> hours, and its encoding.
\<close>

definition cert_far :: Certificate where
  "cert_far =
     \<lparr>Version = 0, Type = ''authority'', Expiration = 18446744073709551615, CertKeyType = ''ed25519'',
      Certified = [42],
      Signatures =
        [\<lparr>Identity =
            [1, 0, 0, 0, 0, 0, 0, 0, 0, 0, 0, 0, 0, 0, 0, 0,
             0, 0, 0, 0, 0, 0, 0, 0, 0, 0, 0, 0, 0, 0, 0, 0],
          Payload =
            [1, 0, 0, 0, 0, 0, 0, 0, 0, 0, 0, 0, 0, 0, 0, 0,
             0, 0, 0, 0, 0, 0, 0, 0, 0, 0, 0, 0, 0, 0, 0, 0,
             0, 0, 0, 0, 97, 117, 116, 104, 111, 114, 105, 116, 121, 255, 255, 255,
             255, 255, 255, 255, 255, 101, 100, 50, 53, 53, 49, 57, 42, 0, 0, 0]\<rparr>]\<rparr>"

definition blob_far :: "byte list" where
  "blob_far =
     [166, 107, 67, 101, 114, 116, 75, 101, 121, 84, 121, 112, 101, 103, 101, 100,
      50, 53, 53, 49, 57, 105, 67, 101, 114, 116, 105, 102, 105, 101, 100, 65,
      42, 106, 69, 120, 112, 105, 114, 97, 116, 105, 111, 110, 27, 255, 255, 255,
      255, 255, 255, 255, 255, 106, 83, 105, 103, 110, 97, 116, 117, 114, 101, 115,
      129, 162, 104, 73, 100, 101, 110, 116, 105, 116, 121, 88, 32, 1, 0, 0,
      0, 0, 0, 0, 0, 0, 0, 0, 0, 0, 0, 0, 0, 0, 0, 0,
      0, 0, 0, 0, 0, 0, 0, 0, 0, 0, 0, 0, 0, 103, 80, 97,
      121, 108, 111, 97, 100, 88, 64, 1, 0, 0, 0, 0, 0, 0, 0, 0,
      0, 0, 0, 0, 0, 0, 0, 0, 0, 0, 0, 0, 0, 0, 0, 0,
      0, 0, 0, 0, 0, 0, 0, 0, 0, 0, 0, 97, 117, 116, 104, 111,
      114, 105, 116, 121, 255, 255, 255, 255, 255, 255, 255, 255, 101, 100, 50, 53,
      53, 49, 57, 42, 0, 0, 0, 100, 84, 121, 112, 101, 105, 97, 117, 116,
      104, 111, 114, 105, 116, 121, 103, 86, 101, 114, 115, 105, 111, 110, 0]"

text \<open>
  The first reference vector of \<^verbatim>\<open>TestSingleSignatureCertificateVectors\<close>: the signing
  key, the payload, the public key and the signature that the expected certificate
  carries, and the expected certificate. The expiration of the test is
  \<open>18934214400 div 3600 = 5259504\<close> hours.
\<close>

definition vector_signingKey :: "byte list" where
  "vector_signingKey =
     [0xe8, 0x18, 0xee, 0x27, 0x5d, 0xdb, 0x72, 0xb8, 0xe6, 0x37, 0x58, 0xdf,
      0xba, 0x3a, 0x90, 0xe0, 0xf5, 0x68, 0x7d, 0xd5, 0x9f, 0x28, 0xc2, 0x81,
      0x2e, 0x98, 0x61, 0xba, 0x19, 0xfa, 0x33, 0xbf, 0xfb, 0x73, 0x1c, 0xf4,
      0x7b, 0x37, 0x32, 0xb2, 0x4a, 0x5f, 0x9c, 0x00, 0xa0, 0x30, 0x4b, 0x66,
      0xd4, 0x61, 0xb2, 0x3e, 0x72, 0x92, 0xc5, 0xeb, 0x40, 0x6e, 0xc0, 0x9a,
      0xdc, 0x2d, 0x95, 0xe0]"

definition vector_toSign :: "byte list" where
  "vector_toSign =
     [0x32, 0xd4, 0xf5, 0x26, 0x20, 0xa5, 0x7a, 0xa2, 0xb0, 0x25, 0x64, 0xc2,
      0x96, 0xc0, 0xb4, 0xb0, 0xdb, 0xec, 0xa5, 0x47, 0x17, 0x04, 0xa9, 0xf4,
      0x00, 0x00, 0x70, 0x6b, 0xcc, 0x13, 0x4d, 0x2f]"

definition vector_publicKey :: "byte list" where
  "vector_publicKey =
     [0xfb, 0x73, 0x1c, 0xf4, 0x7b, 0x37, 0x32, 0xb2, 0x4a, 0x5f, 0x9c, 0x00,
      0xa0, 0x30, 0x4b, 0x66, 0xd4, 0x61, 0xb2, 0x3e, 0x72, 0x92, 0xc5, 0xeb,
      0x40, 0x6e, 0xc0, 0x9a, 0xdc, 0x2d, 0x95, 0xe0]"

definition vector_signature :: "byte list" where
  "vector_signature =
     [0x95, 0xbf, 0x11, 0x0e, 0x77, 0x57, 0xad, 0x24, 0xff, 0x03, 0xc1, 0x34,
      0xa9, 0xbf, 0xbf, 0xff, 0xf8, 0x84, 0x5b, 0x4f, 0x30, 0x4f, 0x6a, 0x90,
      0xc3, 0x6d, 0x04, 0x15, 0x0c, 0x9b, 0x19, 0x4d, 0x45, 0x00, 0x40, 0xdc,
      0x81, 0x03, 0xe7, 0x2e, 0xf2, 0x77, 0xc1, 0x81, 0x35, 0x01, 0x50, 0xe2,
      0x88, 0xfb, 0x26, 0x66, 0x9a, 0x3d, 0x1b, 0x33, 0xdd, 0x73, 0x66, 0x37,
      0xb2, 0x31, 0x1a, 0x0d]"

definition vector_payload :: "byte list" where
  "vector_payload =
     [0xa6, 0x6b, 0x43, 0x65, 0x72, 0x74, 0x4b, 0x65, 0x79, 0x54, 0x79, 0x70,
      0x65, 0x67, 0x65, 0x64, 0x32, 0x35, 0x35, 0x31, 0x39, 0x69, 0x43, 0x65,
      0x72, 0x74, 0x69, 0x66, 0x69, 0x65, 0x64, 0x58, 0x20, 0x32, 0xd4, 0xf5,
      0x26, 0x20, 0xa5, 0x7a, 0xa2, 0xb0, 0x25, 0x64, 0xc2, 0x96, 0xc0, 0xb4,
      0xb0, 0xdb, 0xec, 0xa5, 0x47, 0x17, 0x04, 0xa9, 0xf4, 0x00, 0x00, 0x70,
      0x6b, 0xcc, 0x13, 0x4d, 0x2f, 0x6a, 0x45, 0x78, 0x70, 0x69, 0x72, 0x61,
      0x74, 0x69, 0x6f, 0x6e, 0x1a, 0x00, 0x50, 0x40, 0xf0, 0x6a, 0x53, 0x69,
      0x67, 0x6e, 0x61, 0x74, 0x75, 0x72, 0x65, 0x73, 0x81, 0xa2, 0x68, 0x49,
      0x64, 0x65, 0x6e, 0x74, 0x69, 0x74, 0x79, 0x58, 0x20, 0xfb, 0x73, 0x1c,
      0xf4, 0x7b, 0x37, 0x32, 0xb2, 0x4a, 0x5f, 0x9c, 0x00, 0xa0, 0x30, 0x4b,
      0x66, 0xd4, 0x61, 0xb2, 0x3e, 0x72, 0x92, 0xc5, 0xeb, 0x40, 0x6e, 0xc0,
      0x9a, 0xdc, 0x2d, 0x95, 0xe0, 0x67, 0x50, 0x61, 0x79, 0x6c, 0x6f, 0x61,
      0x64, 0x58, 0x40, 0x95, 0xbf, 0x11, 0x0e, 0x77, 0x57, 0xad, 0x24, 0xff,
      0x03, 0xc1, 0x34, 0xa9, 0xbf, 0xbf, 0xff, 0xf8, 0x84, 0x5b, 0x4f, 0x30,
      0x4f, 0x6a, 0x90, 0xc3, 0x6d, 0x04, 0x15, 0x0c, 0x9b, 0x19, 0x4d, 0x45,
      0x00, 0x40, 0xdc, 0x81, 0x03, 0xe7, 0x2e, 0xf2, 0x77, 0xc1, 0x81, 0x35,
      0x01, 0x50, 0xe2, 0x88, 0xfb, 0x26, 0x66, 0x9a, 0x3d, 0x1b, 0x33, 0xdd,
      0x73, 0x66, 0x37, 0xb2, 0x31, 0x1a, 0x0d, 0x64, 0x54, 0x79, 0x70, 0x65,
      0x69, 0x61, 0x75, 0x74, 0x68, 0x6f, 0x72, 0x69, 0x74, 0x79, 0x67, 0x56,
      0x65, 0x72, 0x73, 0x69, 0x6f, 0x6e, 0x00]"

definition vector_expiration :: "64 word" where
  "vector_expiration = 5259504"

text \<open>
  A scheme that agrees with Ed25519 on what the reference vector records: the public key
  is the second half of the 64 bytes of the private key, and the signature is the one of
  the vector.
\<close>

definition vector_eddsa :: eddsa where
  "vector_eddsa =
     \<lparr>PublicKey = drop 32,
      Sign = (\<lambda>sk m. vector_signature),
      Verify = (\<lambda>pk sig m. sig = vector_signature)\<rparr>"

section \<open>The canonical message: the code and the specification agree\<close>

lemma ucast_byte: "(ucast (w::'a::len word) :: byte) = of_nat (unat w mod 256)"
proof -
  have "unat (ucast w :: byte) = unat (of_nat (unat w mod 256) :: byte)"
    by (simp add: unsigned_ucast_eq unat_of_nat take_bit_eq_mod)
  then show ?thesis by (simp only: word_unat_eq_iff)
qed
lemma unat_drop8: "unat (drop_bit 8 (w::'a::len word)) = unat w div 256"
  by (simp only: unat_drop_bit_eq) (simp add: drop_bit_eq_div)
lemma spec_le_Suc: "spec_le (Suc k) n = of_nat (n mod 256) # spec_le k (n div 256)"
    unfolding spec_le_def
    apply (simp only: upt_conv_Cons[of 0 "Suc k"] map_Suc_upt[symmetric])
    apply (simp add: div_mult2_eq del: upt_Suc)
    done
lemma le_bytes_spec: "le_bytes k w = spec_le k (unat w)"
proof (induction k arbitrary: w)
  case 0 show ?case by (simp add: spec_le_def)
next
  case (Suc k)
  show ?case by (simp only: le_bytes.simps Suc.IH spec_le_Suc ucast_byte unat_drop8)
qed
lemma message_eq: "message c = Inr (canonical c)"
  by (simp add: message_def binary_Write_def Buffer_Write_def canonical_def spec_message_def
      bytes_of_def le_bytes_spec)

section \<open>The codec: decoding an encoding\<close>

lemma length_be_bytes: "length (be_bytes k n) = k"
  by (induction k arbitrary: n) simp_all

lemma be_nat_snoc: "be_nat (xs @ [b]) = be_nat xs * 256 + unat b"
  by (simp add: be_nat_def)

lemma unat_of_nat_byte: "unat (of_nat n :: byte) = n mod 256"
  by (simp add: unat_of_nat)

lemma be_nat_be_bytes: "n < 256 ^ k \<Longrightarrow> be_nat (be_bytes k n) = n"
proof (induction k arbitrary: n)
  case 0
  then show ?case by (simp add: be_nat_def)
next
  case (Suc k)
  from Suc.prems have "n div 256 < 256 ^ k"
    by (simp add: less_mult_imp_div_less mult.commute)
  then have "be_nat (be_bytes k (n div 256)) = n div 256" by (rule Suc.IH)
  then show ?case by (simp add: be_nat_snoc unat_of_nat_byte)
qed

lemma be_nat_bound: "be_nat bs < 256 ^ length bs"
proof (induction bs rule: rev_induct)
  case Nil
  show ?case by (simp add: be_nat_def)
next
  case (snoc b bs)
  have "unat b < 256" using unsigned_less [of b] by simp
  with snoc show ?case by (simp add: be_nat_snoc)
qed

lemma unat_head_byte:
  "a < 32 \<Longrightarrow> mt < 8 \<Longrightarrow> unat (of_nat (32 * mt) + of_nat a :: byte) = 32 * mt + a"
proof -
  assume "a < 32" "mt < 8"
  then have "32 * mt + a < 256" by simp
  moreover have "(of_nat (32 * mt) + of_nat a :: byte) = of_nat (32 * mt + a)" by simp
  ultimately show ?thesis by (simp only: unat_of_nat_byte) simp
qed

lemma dec_head_Cons:
  "dec_head (b # rest) =
     (if unat b mod 32 < 24 then Some (unat b div 32, unat b mod 32, rest)
      else if unat b mod 32 \<le> 27 then
        (if length rest < 2 ^ (unat b mod 32 - 24) then None
         else Some (unat b div 32, be_nat (take (2 ^ (unat b mod 32 - 24)) rest),
                    drop (2 ^ (unat b mod 32 - 24)) rest))
      else None)"
  by (simp add: dec_head_def Let_def)

lemma dec_head_short:
  assumes "unat b = 32 * mt + v" "v < 24"
  shows "dec_head (b # rest) = Some (mt, v, rest)"
  using assms by (simp add: dec_head_Cons)

lemma dec_head_wide:
  assumes "unat b = 32 * mt + (24 + j)" "j < 4" "v < 256 ^ (2 ^ j)"
  shows "dec_head (b # be_bytes (2 ^ j) v @ rest) = Some (mt, v, rest)"
  using assms by (simp add: dec_head_Cons length_be_bytes be_nat_be_bytes)

lemma unat_base_plus:
  assumes "unat (bd :: byte) = 32 * mt" "mt < 8" "unat x < 32"
  shows "unat (bd + x) = 32 * mt + unat x" and "unat (x + bd) = 32 * mt + unat x"
  using assms by (simp_all add: unat_word_ariths)

lemma dec_head_encUint:
  assumes bd: "unat bd = 32 * mt" "mt < 8" and v: "v < 2 ^ 64"
  shows "dec_head (encUint v bd @ rest) = Some (mt, v, rest)"
proof -
  consider (a) "v \<le> 0x17" | (b) "0x17 < v" "v \<le> 0xff" | (c) "0xff < v" "v \<le> 0xffff"
    | (d) "0xffff < v" "v \<le> 0xffffffff" | (e) "0xffffffff < v"
    by linarith
  then show ?thesis
  proof cases
    case a
    then have "unat (of_nat v :: byte) = v" by (simp add: unat_of_nat_byte)
    with a bd have "unat (of_nat v + bd) = 32 * mt + v"
      by (simp add: unat_base_plus)
    with a show ?thesis by (simp add: encUint_def dec_head_short)
  next
    case b
    have "unat (bd + 0x18) = 32 * mt + (24 + 0)" using bd by (simp add: unat_base_plus)
    then have "dec_head ((bd + 0x18) # be_bytes (2 ^ 0) v @ rest) = Some (mt, v, rest)"
      by (rule dec_head_wide) (use b in simp_all)
    with b show ?thesis by (simp add: encUint_def)
  next
    case c
    have "unat (bd + 0x19) = 32 * mt + (24 + 1)" using bd by (simp add: unat_base_plus)
    then have "dec_head ((bd + 0x19) # be_bytes (2 ^ 1) v @ rest) = Some (mt, v, rest)"
      by (rule dec_head_wide) (use c in simp_all)
    with c show ?thesis by (simp add: encUint_def)
  next
    case d
    have "unat (bd + 0x1a) = 32 * mt + (24 + 2)" using bd by (simp add: unat_base_plus)
    then have "dec_head ((bd + 0x1a) # be_bytes (2 ^ 2) v @ rest) = Some (mt, v, rest)"
      by (rule dec_head_wide) (use d in simp_all)
    with d show ?thesis by (simp add: encUint_def)
  next
    case e
    have "unat (bd + 0x1b) = 32 * mt + (24 + 3)" using bd by (simp add: unat_base_plus)
    then have "dec_head ((bd + 0x1b) # be_bytes (2 ^ 3) v @ rest) = Some (mt, v, rest)"
      by (rule dec_head_wide) (use e v in simp_all)
    with e show ?thesis by (simp add: encUint_def)
  qed
qed

lemma unat_of_char_byte: "unat (of_char c :: byte) = of_char c"
proof -
  have "(of_char c :: byte) = of_nat (of_char c)" by (simp add: of_nat_of_char)
  moreover have "(of_char c :: nat) < 256" by simp
  ultimately show ?thesis by (simp add: unat_of_nat)
qed

lemma string_of_bytes_of: "map (\<lambda>b. char_of (unat b)) (bytes_of s) = s"
  by (induction s) (simp_all add: bytes_of_def unat_of_char_byte)

lemma base_bytes:
  "unat cborBaseUint = 32 * 0" "unat cborBaseBytes = 32 * 2" "unat cborBaseString = 32 * 3"
  "unat cborBaseArray = 32 * 4" "unat cborBaseMap = 32 * 5"
  by (simp_all add: cborBaseUint_def cborBaseBytes_def cborBaseString_def cborBaseArray_def
      cborBaseMap_def)

lemma DecodeUint_EncodeUint:
  assumes "v < 2 ^ bitsize" "bitsize \<le> 64"
  shows "DecodeUint bitsize (EncodeUint v @ rest) = Some (v, rest)"
proof -
  have "(2::nat) ^ bitsize \<le> 2 ^ 64" using assms(2) by (intro power_increasing) simp_all
  with assms(1) have "v < 2 ^ 64" by linarith
  then have "dec_head (encUint v cborBaseUint @ rest) = Some (0, v, rest)"
    by (intro dec_head_encUint base_bytes) simp_all
  with assms(1) show ?thesis by (simp add: DecodeUint_def EncodeUint_def)
qed

lemma DecodeBytes_EncodeStringBytesRaw:
  assumes "len64 bs"
  shows "DecodeBytes (EncodeStringBytesRaw bs @ rest) = Some (bs, rest)"
proof -
  have "dec_head (encUint (length bs) cborBaseBytes @ bs @ rest) = Some (2, length bs, bs @ rest)"
    using assms unfolding len64_def by (intro dec_head_encUint base_bytes) simp_all
  then show ?thesis by (simp add: DecodeBytes_def EncodeStringBytesRaw_def)
qed

lemma DecodeString_EncodeString:
  assumes "len64 s"
  shows "DecodeString (EncodeString s @ rest) = Some (s, rest)"
proof -
  have "dec_head (encUint (length s) cborBaseString @ bytes_of s @ rest) =
        Some (3, length s, bytes_of s @ rest)"
    using assms unfolding len64_def by (intro dec_head_encUint base_bytes) simp_all
  moreover have "length (bytes_of s) = length s" by (simp add: bytes_of_def)
  ultimately show ?thesis
    by (simp add: DecodeString_def EncodeString_def string_of_bytes_of)
qed

lemma len64_literal [simp]: "length s < 100 \<Longrightarrow> len64 s"
  by (simp add: len64_def)

lemma encode_Signature_eq:
  "encode_Signature s =
     encUint 2 cborBaseMap @
     EncodeString ''Identity'' @ EncodeStringBytesRaw (Identity s) @
     EncodeString ''Payload'' @ EncodeStringBytesRaw (Payload s)"
  by (simp add: encode_Signature_def encode_struct_def Signature_fields_def numeral_2_eq_2)

lemma decode_Signature_encode_Signature:
  assumes "Signature_ok s"
  shows "decode_Signature (encode_Signature s @ rest) = Some (s, rest)"
proof -
  have "dec_head (encUint 2 cborBaseMap @ r) = Some (5, 2, r)" for r
    by (intro dec_head_encUint base_bytes) simp_all
  then have h: "dec_head (encUint 2 cborBaseMap @ r) = Some (5, Suc (Suc 0), r)" for r
    by (simp add: numeral_2_eq_2)
  from assms have i: "len64 (Identity s)" and p: "len64 (Payload s)"
    by (simp_all add: Signature_ok_def)
  show ?thesis
    unfolding encode_Signature_eq decode_Signature_def
    by (simp add: h DecodeString_EncodeString decode_Signature_field_def
        DecodeBytes_EncodeStringBytesRaw [OF i] DecodeBytes_EncodeStringBytesRaw [OF p])
qed

lemma decode_Signature_elems_encode:
  assumes "list_all Signature_ok ss"
  shows "decode_Signature_elems (length ss) (concat (map encode_Signature ss) @ rest) =
         Some (ss, rest)"
  using assms
  by (induction ss) (simp_all add: decode_Signature_encode_Signature)

lemma decode_Signatures_encode_Signatures:
  assumes "len64 ss" "list_all Signature_ok ss"
  shows "decode_Signatures (encode_Signatures ss @ rest) = Some (ss, rest)"
proof -
  have "dec_head (encUint (length ss) cborBaseArray @ r) = Some (4, length ss, r)" for r
    using assms(1) unfolding len64_def by (intro dec_head_encUint base_bytes) simp_all
  then show ?thesis
    by (simp add: decode_Signatures_def encode_Signatures_def
        decode_Signature_elems_encode [OF assms(2)])
qed

lemma six: "(6::nat) = Suc (Suc (Suc (Suc (Suc (Suc 0)))))"
  by simp

lemma encode_Certificate_eq:
  "encode_struct (Certificate_fields c) =
     encUint 6 cborBaseMap @
     EncodeString ''CertKeyType'' @ EncodeString (CertKeyType c) @
     EncodeString ''Certified'' @ EncodeStringBytesRaw (Certified c) @
     EncodeString ''Expiration'' @ EncodeUint (unat (Expiration c)) @
     EncodeString ''Signatures'' @ encode_Signatures (Signatures c) @
     EncodeString ''Type'' @ EncodeString (Type c) @
     EncodeString ''Version'' @ EncodeUint (unat (Version c))"
  by (simp add: encode_struct_def Certificate_fields_def six)

lemma Decode_encode:
  assumes "Certificate_ok c"
  shows "Decode (encode_struct (Certificate_fields c) @ rest) c0 = Inr c"
proof -
  have "dec_head (encUint 6 cborBaseMap @ r) = Some (5, 6, r)" for r
    by (intro dec_head_encUint base_bytes) simp_all
  then have h: "dec_head (encUint 6 cborBaseMap @ r) =
      Some (5, Suc (Suc (Suc (Suc (Suc (Suc 0))))), r)" for r
    by (simp only: six [symmetric])
  from assms have t: "len64 (Type c)" and k: "len64 (CertKeyType c)"
    and p: "len64 (Certified c)" and s: "len64 (Signatures c)"
    and ss: "list_all Signature_ok (Signatures c)"
    by (simp_all add: Certificate_ok_def)
  have v: "unat (Version c) < 2 ^ 32" using unsigned_less [of "Version c"] by simp
  have e: "unat (Expiration c) < 2 ^ 64" using unsigned_less [of "Expiration c"] by simp
  show ?thesis
    unfolding encode_Certificate_eq Decode_def
    by (simp add: h decode_Certificate_field_def
        DecodeString_EncodeString [OF t] DecodeString_EncodeString [OF k]
        DecodeString_EncodeString [OF len64_literal]
        DecodeBytes_EncodeStringBytesRaw [OF p]
        decode_Signatures_encode_Signatures [OF s ss]
        DecodeUint_EncodeUint [OF v] DecodeUint_EncodeUint [OF e])
qed

section \<open>A decoded certificate has representable lengths\<close>

lemma dec_head_bound:
  assumes "dec_head bs = Some (m, n, rest)"
  shows "n < 2 ^ 64"
proof (cases bs)
  case Nil
  with assms show ?thesis by (simp add: dec_head_def)
next
  case (Cons b bs')
  let ?v = "unat b mod 32"
  show ?thesis
  proof (cases "?v < 24")
    case True
    with assms Cons have "n = ?v" by (simp add: dec_head_Cons)
    with True show ?thesis by simp
  next
    case False
    let ?k = "(2::nat) ^ (?v - 24)"
    from assms Cons False have v: "?v \<le> 27" and l: "\<not> length bs' < ?k"
      and n: "n = be_nat (take ?k bs')"
      by (simp_all add: dec_head_Cons split: if_splits)
    from v have "?v - 24 \<le> 3" by simp
    then have "?k \<le> 2 ^ 3" by (intro power_increasing) simp_all
    then have k: "?k \<le> 8" by simp
    have "length (take ?k bs') = ?k" using l by simp
    with be_nat_bound [of "take ?k bs'"] have "n < 256 ^ ?k" by (simp only: n)
    also have "(256::nat) ^ ?k \<le> 256 ^ 8" using k by (intro power_increasing) simp_all
    finally show ?thesis by simp
  qed
qed

lemma DecodeBytes_len64:
  assumes "DecodeBytes bs = Some (v, rest)"
  shows "len64 v"
proof -
  from assms obtain m n r where h: "dec_head bs = Some (m, n, r)" and v: "v = take n r"
    by (auto simp: DecodeBytes_def split: option.splits if_splits)
  have "length v \<le> n" by (simp add: v)
  with dec_head_bound [OF h] show ?thesis by (simp add: len64_def)
qed

lemma DecodeString_len64:
  assumes "DecodeString bs = Some (v, rest)"
  shows "len64 v"
proof -
  from assms obtain m n r where h: "dec_head bs = Some (m, n, r)"
    and v: "v = map (\<lambda>b. char_of (unat b)) (take n r)"
    by (auto simp: DecodeString_def split: option.splits if_splits)
  have "length v \<le> n" by (simp add: v)
  with dec_head_bound [OF h] show ?thesis by (simp add: len64_def)
qed

lemma decode_Signature_field_ok:
  assumes "decode_Signature_field name s bs = Some (s', rest)" "Signature_ok s"
  shows "Signature_ok s'"
proof -
  from assms(1) obtain v where v: "DecodeBytes bs = Some (v, rest)"
    and s': "s' = s\<lparr>Identity := v\<rparr> \<or> s' = s\<lparr>Payload := v\<rparr>"
    unfolding decode_Signature_field_def
    by (cases "name = ''Identity''"; cases "name = ''Payload''"; cases "DecodeBytes bs")
      auto
  from DecodeBytes_len64 [OF v] s' assms(2) show ?thesis
    by (auto simp: Signature_ok_def)
qed

lemma decode_Signature_fields_ok:
  "decode_Signature_fields n s bs = Some (s', rest) \<Longrightarrow> Signature_ok s \<Longrightarrow> Signature_ok s'"
proof (induction n arbitrary: s bs)
  case 0
  then show ?case by simp
next
  case (Suc n)
  from Suc.prems(1) obtain name r where n: "DecodeString bs = Some (name, r)"
    by (cases "DecodeString bs") auto
  with Suc.prems(1) obtain s1 r1 where f: "decode_Signature_field name s r = Some (s1, r1)"
    by (cases "decode_Signature_field name s r") auto
  from Suc.prems(1) n f have "decode_Signature_fields n s1 r1 = Some (s', rest)" by simp
  moreover from f Suc.prems(2) have "Signature_ok s1" by (rule decode_Signature_field_ok)
  ultimately show ?case by (rule Suc.IH)
qed

lemma decode_Signature_ok:
  assumes "decode_Signature bs = Some (s, rest)"
  shows "Signature_ok s"
proof -
  from assms obtain n r where
    "decode_Signature_fields n \<lparr>Identity = [], Payload = []\<rparr> r = Some (s, rest)"
    by (auto simp: decode_Signature_def split: option.splits if_splits)
  then show ?thesis
    by (rule decode_Signature_fields_ok) (simp add: Signature_ok_def len64_def)
qed

lemma decode_Signature_elems_ok:
  "decode_Signature_elems n bs = Some (ss, rest) \<Longrightarrow>
     length ss = n \<and> list_all Signature_ok ss"
proof (induction n arbitrary: bs ss)
  case 0
  then show ?case by simp
next
  case (Suc n)
  from Suc.prems obtain s r ss' where d: "decode_Signature bs = Some (s, r)"
    and e: "decode_Signature_elems n r = Some (ss', rest)" and ss: "ss = s # ss'"
    by (auto split: option.splits)
  from Suc.IH [OF e] decode_Signature_ok [OF d] show ?case by (simp add: ss)
qed

lemma decode_Signatures_ok:
  assumes "decode_Signatures bs = Some (ss, rest)"
  shows "len64 ss \<and> list_all Signature_ok ss"
proof -
  from assms obtain m n r where h: "dec_head bs = Some (m, n, r)"
    and e: "decode_Signature_elems n r = Some (ss, rest)"
    by (auto simp: decode_Signatures_def split: option.splits if_splits)
  from decode_Signature_elems_ok [OF e] dec_head_bound [OF h] show ?thesis
    by (simp add: len64_def)
qed

lemma decode_Certificate_field_ok:
  assumes "decode_Certificate_field name c bs = Some (c', rest)" "Certificate_ok c"
  shows "Certificate_ok c'"
proof -
  consider (v) "name = ''Version''" | (t) "name = ''Type''" | (e) "name = ''Expiration''"
    | (k) "name = ''CertKeyType''" | (p) "name = ''Certified''" | (s) "name = ''Signatures''"
    | (other) "name \<noteq> ''Version''" "name \<noteq> ''Type''" "name \<noteq> ''Expiration''"
        "name \<noteq> ''CertKeyType''" "name \<noteq> ''Certified''" "name \<noteq> ''Signatures''"
    by blast
  then show ?thesis
  proof cases
    case v
    with assms show ?thesis
      by (cases "DecodeUint 32 bs")
        (auto simp: decode_Certificate_field_def Certificate_ok_def)
  next
    case t
    with assms show ?thesis
      by (cases "DecodeString bs")
        (auto simp: decode_Certificate_field_def Certificate_ok_def dest: DecodeString_len64)
  next
    case e
    with assms show ?thesis
      by (cases "DecodeUint 64 bs")
        (auto simp: decode_Certificate_field_def Certificate_ok_def)
  next
    case k
    with assms show ?thesis
      by (cases "DecodeString bs")
        (auto simp: decode_Certificate_field_def Certificate_ok_def dest: DecodeString_len64)
  next
    case p
    with assms show ?thesis
      by (cases "DecodeBytes bs")
        (auto simp: decode_Certificate_field_def Certificate_ok_def dest: DecodeBytes_len64)
  next
    case s
    with assms show ?thesis
      by (cases "decode_Signatures bs")
        (auto simp: decode_Certificate_field_def Certificate_ok_def dest: decode_Signatures_ok)
  next
    case other
    with assms(1) show ?thesis by (simp add: decode_Certificate_field_def)
  qed
qed

lemma decode_Certificate_fields_ok:
  "decode_Certificate_fields n c bs = Some (c', rest) \<Longrightarrow> Certificate_ok c \<Longrightarrow>
     Certificate_ok c'"
proof (induction n arbitrary: c bs)
  case 0
  then show ?case by simp
next
  case (Suc n)
  from Suc.prems(1) obtain name r where n: "DecodeString bs = Some (name, r)"
    by (cases "DecodeString bs") auto
  with Suc.prems(1) obtain c1 r1 where f: "decode_Certificate_field name c r = Some (c1, r1)"
    by (cases "decode_Certificate_field name c r") auto
  from Suc.prems(1) n f have "decode_Certificate_fields n c1 r1 = Some (c', rest)" by simp
  moreover from f Suc.prems(2) have "Certificate_ok c1" by (rule decode_Certificate_field_ok)
  ultimately show ?case by (rule Suc.IH)
qed

lemma zero_Certificate_ok: "Certificate_ok zero_Certificate"
  by (simp add: Certificate_ok_def zero_Certificate_def len64_def)

lemma Decode_ok:
  assumes "Decode rawCert zero_Certificate = Inr c"
  shows "Certificate_ok c"
proof -
  from assms obtain n r rest where
    "decode_Certificate_fields n zero_Certificate r = Some (c, rest)"
    by (auto simp: Decode_def split: option.splits if_splits)
  then show ?thesis by (rule decode_Certificate_fields_ok) (rule zero_Certificate_ok)
qed

section \<open>The expiry instant\<close>

lemma unat_hourSeconds: "unat hourSeconds = 3600"
  by (simp add: hourSeconds_def)
lemma unat_unixToInternal: "unat unixToInternal = 62135596800"
  by (simp add: unixToInternal_def)
lemma unat_mult_exact:
  "unat (a :: 64 word) * unat b < 2 ^ 64 \<Longrightarrow> unat (a * b) = unat a * unat b"
  using unat_mult_lem [of a b] by simp

lemma unat_add_exact:
  "unat (a :: 64 word) + unat b < 2 ^ 64 \<Longrightarrow> unat (a + b) = unat a + unat b"
  using unat_add_lem [of a b] by simp
lemma sint_small:
  assumes "unat (w :: 64 word) < 2 ^ 63"
  shows "sint w = int (unat w)"
proof -
  have u: "uint w = int (unat w)" by simp
  have "int (unat w) < int (2 ^ 63)" using assms by (simp only: of_nat_less_iff)
  then have "uint w < 2 ^ 63" by (simp only: u) simp
  moreover have "(0::int) \<le> uint w" by simp
  then have "- (2 ^ 63) \<le> uint w" by (rule order_trans [rotated]) simp
  ultimately have "signed_take_bit 63 (uint w) = uint w"
    by (rule signed_take_bit_int_eq_self [rotated])
  then show ?thesis by (simp add: sint_uint)
qed

lemma expiry_exact:
  assumes "exact_expiry (Expiration c)"
  shows "expiry c = expiry_instant (Expiration c)"
proof -
  let ?e = "Expiration c"
  from assms have b: "unat ?e * 3600 + 62135596800 < 2 ^ 63"
    by (simp only: exact_expiry_def)
  have "unat ?e * unat hourSeconds < 2 ^ 64"
    using b by (simp only: unat_hourSeconds) simp
  then have m: "unat (?e * hourSeconds) = unat ?e * 3600"
    by (simp only: unat_mult_exact unat_hourSeconds)
  have "unat (?e * hourSeconds) + unat unixToInternal < 2 ^ 64"
    using b by (simp only: m unat_unixToInternal) simp
  then have a: "unat (?e * hourSeconds + unixToInternal) = unat ?e * 3600 + 62135596800"
    by (simp only: unat_add_exact m unat_unixToInternal)
  have "unat (?e * hourSeconds + unixToInternal) < 2 ^ 63"
    using b by (simp only: a)
  then have s1: "sint (?e * hourSeconds + unixToInternal) =
      int (unat ?e * 3600 + 62135596800)"
    by (simp only: sint_small a)
  have "unat unixToInternal < 2 ^ 63" by (simp only: unat_unixToInternal) simp
  then have s2: "sint unixToInternal = 62135596800"
    by (simp only: sint_small unat_unixToInternal)
  have "sec (expiry c) = int (unat ?e) * 3600"
    by (simp add: expiry_def time_Unix_def s1 s2)
  moreover have "nsec (expiry c) = 0"
    by (simp add: expiry_def time_Unix_def)
  ultimately show ?thesis by (simp add: expiry_instant_def)
qed

section \<open>The operations as equations\<close>

lemma Encode_eq: "Encode c = Inr (encode_struct (Certificate_fields c))"
  by (simp add: Encode_def)

lemma Decode_Encode:
  assumes "Certificate_ok c" "Encode c = Inr blob"
  shows "Decode blob c0 = Inr c"
  using assms Decode_encode [of c "[]" c0] by (simp add: Encode_def)

lemma CreateCertificate_eq:
  "CreateCertificate E signingKey toSign certType expiration =
     Encode \<lparr>Version = CertVersion, Type = certType, Expiration = expiration,
             CertKeyType = CertKeyType_const, Certified = toSign,
             Signatures =
               [\<lparr>Identity = PublicKey E signingKey,
                 Payload = Sign E signingKey
                   (spec_message CertVersion certType expiration CertKeyType_const toSign)\<rparr>]\<rparr>"
  by (simp add: CreateCertificate_def Let_def message_eq canonical_def Encode_def)

lemma VerifyMulti_range_eq:
  "VerifyMulti_range E cert publicKey sigs =
     Inr (case find (\<lambda>s. publicKey = Identity s) sigs of
            None \<Rightarrow> False
          | Some s \<Rightarrow> Verify E publicKey (Payload s) (canonical cert))"
  by (induction sigs) (simp_all add: message_eq)

lemma VerifyCertificate_eq:
  assumes "Decode rawCert zero_Certificate = Inr cert"
  shows "VerifyCertificate E now rawCert publicKey =
     (if length (Signatures cert) \<noteq> 1 then Inl ErrOneSignatureOnly
      else if Before (expiry cert) now then Inl ErrCertificateExpired
      else Inr (Verify E publicKey (Payload (Signatures cert ! 0)) (canonical cert)))"
  using assms by (simp add: VerifyCertificate_def message_eq)

lemma VerifyMulti_eq:
  assumes "Decode rawCert zero_Certificate = Inr cert"
  shows "VerifyMulti E now rawCert publicKey =
     (if Before (expiry cert) now then Inl ErrCertificateExpired
      else Inr (case find (\<lambda>s. publicKey = Identity s) (Signatures cert) of
                  None \<Rightarrow> False
                | Some s \<Rightarrow> Verify E publicKey (Payload s) (canonical cert)))"
  using assms by (simp add: VerifyMulti_def VerifyMulti_range_eq)

lemma SignMultiCertificate_eq:
  assumes "Decode rawCert zero_Certificate = Inr cert"
  shows "SignMultiCertificate E signingKey rawCert =
     Encode (cert\<lparr>Signatures := Signatures cert @
       [\<lparr>Identity = PublicKey E signingKey,
         Payload = Sign E signingKey (canonical cert)\<rparr>]\<rparr>)"
  using assms by (simp add: SignMultiCertificate_def message_eq Let_def Encode_def)

lemma eddsa_Signature_ok:
  assumes "eddsa_scheme E"
  shows "Signature_ok \<lparr>Identity = PublicKey E sk, Payload = Sign E sk m\<rparr>"
  using assms by (simp add: eddsa_scheme_def Signature_ok_def len64_def)

section \<open>Decoding consumes its input\<close>

lemma dec_head_shorter:
  assumes "dec_head bs = Some (m, n, rest)"
  shows "length rest < length bs"
proof (cases bs)
  case Nil
  with assms show ?thesis by (simp add: dec_head_def)
next
  case (Cons b bs')
  with assms have "rest = bs' \<or> (\<exists>k. rest = drop k bs')"
    by (auto simp: dec_head_Cons split: if_splits)
  with Cons show ?thesis by auto
qed

lemma DecodeBytes_shorter:
  assumes "DecodeBytes bs = Some (v, rest)"
  shows "length rest < length bs"
proof -
  from assms obtain m n r where h: "dec_head bs = Some (m, n, r)" and r: "rest = drop n r"
    by (auto simp: DecodeBytes_def split: option.splits if_splits)
  from dec_head_shorter [OF h] show ?thesis by (simp add: r)
qed

lemma DecodeString_shorter:
  assumes "DecodeString bs = Some (v, rest)"
  shows "length rest < length bs"
proof -
  from assms obtain m n r where h: "dec_head bs = Some (m, n, r)" and r: "rest = drop n r"
    by (auto simp: DecodeString_def split: option.splits if_splits)
  from dec_head_shorter [OF h] show ?thesis by (simp add: r)
qed

lemma DecodeUint_shorter:
  assumes "DecodeUint k bs = Some (v, rest)"
  shows "length rest < length bs"
proof -
  from assms obtain m where h: "dec_head bs = Some (m, v, rest)"
    by (auto simp: DecodeUint_def split: option.splits if_splits)
  then show ?thesis by (rule dec_head_shorter)
qed

lemma decode_Signature_field_shorter:
  assumes "decode_Signature_field name s bs = Some (s', rest)"
  shows "length rest < length bs"
proof -
  from assms obtain v where "DecodeBytes bs = Some (v, rest)"
    unfolding decode_Signature_field_def
    by (cases "name = ''Identity''"; cases "name = ''Payload''"; cases "DecodeBytes bs")
      auto
  then show ?thesis by (rule DecodeBytes_shorter)
qed

lemma decode_Signature_fields_shorter:
  "decode_Signature_fields n s bs = Some (s', rest) \<Longrightarrow> length rest \<le> length bs"
proof (induction n arbitrary: s bs)
  case 0
  then show ?case by simp
next
  case (Suc n)
  from Suc.prems obtain name r where n: "DecodeString bs = Some (name, r)"
    by (cases "DecodeString bs") auto
  with Suc.prems obtain s1 r1 where f: "decode_Signature_field name s r = Some (s1, r1)"
    by (cases "decode_Signature_field name s r") auto
  from Suc.prems n f have "decode_Signature_fields n s1 r1 = Some (s', rest)" by simp
  then have "length rest \<le> length r1" by (rule Suc.IH)
  with DecodeString_shorter [OF n] decode_Signature_field_shorter [OF f] show ?case
    by simp
qed

lemma decode_Signature_shorter:
  assumes "decode_Signature bs = Some (s, rest)"
  shows "length rest < length bs"
proof -
  from assms obtain m n r where h: "dec_head bs = Some (m, n, r)"
    and f: "decode_Signature_fields n \<lparr>Identity = [], Payload = []\<rparr> r = Some (s, rest)"
    by (auto simp: decode_Signature_def split: option.splits if_splits)
  from dec_head_shorter [OF h] decode_Signature_fields_shorter [OF f] show ?thesis
    by simp
qed

lemma decode_Signature_elems_shorter:
  "decode_Signature_elems n bs = Some (ss, rest) \<Longrightarrow> n + length rest \<le> length bs"
proof (induction n arbitrary: bs ss)
  case 0
  then show ?case by simp
next
  case (Suc n)
  from Suc.prems obtain s r ss' where d: "decode_Signature bs = Some (s, r)"
    and e: "decode_Signature_elems n r = Some (ss', rest)"
    by (auto split: option.splits)
  from Suc.IH [OF e] decode_Signature_shorter [OF d] show ?case by simp
qed

lemma decode_Signatures_shorter:
  assumes "decode_Signatures bs = Some (ss, rest)"
  shows "length ss < length bs" and "length rest < length bs"
proof -
  from assms obtain m n r where h: "dec_head bs = Some (m, n, r)"
    and e: "decode_Signature_elems n r = Some (ss, rest)"
    by (auto simp: decode_Signatures_def split: option.splits if_splits)
  from decode_Signature_elems_ok [OF e] have "length ss = n" by simp
  with decode_Signature_elems_shorter [OF e] dec_head_shorter [OF h]
  show "length ss < length bs" and "length rest < length bs" by simp_all
qed

lemma decode_Certificate_field_shorter:
  assumes "decode_Certificate_field name c bs = Some (c', rest)"
  shows "length rest < length bs" and
    "length (Signatures c') \<le> max (length (Signatures c)) (length bs)"
proof -
  consider (v) "name = ''Version''" | (t) "name = ''Type''" | (e) "name = ''Expiration''"
    | (k) "name = ''CertKeyType''" | (p) "name = ''Certified''" | (s) "name = ''Signatures''"
    | (other) "name \<noteq> ''Version''" "name \<noteq> ''Type''" "name \<noteq> ''Expiration''"
        "name \<noteq> ''CertKeyType''" "name \<noteq> ''Certified''" "name \<noteq> ''Signatures''"
    by blast
  then have "length rest < length bs \<and>
      length (Signatures c') \<le> max (length (Signatures c)) (length bs)"
  proof cases
    case v
    with assms show ?thesis
      by (cases "DecodeUint 32 bs")
        (auto simp: decode_Certificate_field_def dest: DecodeUint_shorter)
  next
    case t
    with assms show ?thesis
      by (cases "DecodeString bs")
        (auto simp: decode_Certificate_field_def dest: DecodeString_shorter)
  next
    case e
    with assms show ?thesis
      by (cases "DecodeUint 64 bs")
        (auto simp: decode_Certificate_field_def dest: DecodeUint_shorter)
  next
    case k
    with assms show ?thesis
      by (cases "DecodeString bs")
        (auto simp: decode_Certificate_field_def dest: DecodeString_shorter)
  next
    case p
    with assms show ?thesis
      by (cases "DecodeBytes bs")
        (auto simp: decode_Certificate_field_def dest: DecodeBytes_shorter)
  next
    case s
    with assms show ?thesis
      by (cases "decode_Signatures bs")
        (auto simp: decode_Certificate_field_def dest: decode_Signatures_shorter)
  next
    case other
    with assms show ?thesis by (simp add: decode_Certificate_field_def)
  qed
  then show "length rest < length bs" and
    "length (Signatures c') \<le> max (length (Signatures c)) (length bs)" by simp_all
qed

lemma decode_Certificate_fields_count:
  "decode_Certificate_fields n c bs = Some (c', rest) \<Longrightarrow>
     length (Signatures c') \<le> max (length (Signatures c)) (length bs)"
proof (induction n arbitrary: c bs)
  case 0
  then show ?case by simp
next
  case (Suc n)
  from Suc.prems obtain name r where n: "DecodeString bs = Some (name, r)"
    by (cases "DecodeString bs") auto
  with Suc.prems obtain c1 r1 where f: "decode_Certificate_field name c r = Some (c1, r1)"
    by (cases "decode_Certificate_field name c r") auto
  from Suc.prems n f have "decode_Certificate_fields n c1 r1 = Some (c', rest)" by simp
  then have "length (Signatures c') \<le> max (length (Signatures c1)) (length r1)"
    by (rule Suc.IH)
  with DecodeString_shorter [OF n] decode_Certificate_field_shorter [OF f] show ?case
    by simp
qed

lemma Decode_count:
  assumes "Decode rawCert zero_Certificate = Inr c"
  shows "length (Signatures c) < length rawCert"
proof -
  from assms obtain m n r rest where h: "dec_head rawCert = Some (m, n, r)"
    and f: "decode_Certificate_fields n zero_Certificate r = Some (c, rest)"
    by (auto simp: Decode_def split: option.splits if_splits)
  from decode_Certificate_fields_count [OF f] dec_head_shorter [OF h] show ?thesis
    by (simp add: zero_Certificate_def)
qed

section \<open>The first signature of an identity\<close>

lemma find_first:
  assumes "\<forall>x\<in>set pre. \<not> P x" "P s"
  shows "find P (pre @ s # post) = Some s"
  using assms by (induction pre) simp_all

lemma find_none:
  assumes "\<forall>x\<in>set xs. \<not> P x"
  shows "find P xs = None"
  using assms by (induction xs) simp_all

section \<open>Certificates that the operations build\<close>

lemma cosigned_ok:
  assumes "eddsa_scheme E" "len64 rawCert" "Decode rawCert zero_Certificate = Inr cert"
  shows "Certificate_ok (cert\<lparr>Signatures := Signatures cert @
           [\<lparr>Identity = PublicKey E sk, Payload = Sign E sk m\<rparr>]\<rparr>)"
proof -
  have ok: "Certificate_ok cert" using assms(3) by (rule Decode_ok)
  have "length (Signatures cert) < length rawCert" using assms(3) by (rule Decode_count)
  with assms(2) have "Suc (length (Signatures cert)) < 2 ^ 64"
    unfolding len64_def by linarith
  with ok eddsa_Signature_ok [OF assms(1), of sk m] show ?thesis
    by (simp add: Certificate_ok_def len64_def)
qed

lemma created_ok:
  assumes "eddsa_scheme E" "len64 toSign" "len64 certType"
  shows "Certificate_ok \<lparr>Version = CertVersion, Type = certType, Expiration = expiration,
           CertKeyType = CertKeyType_const, Certified = toSign,
           Signatures = [\<lparr>Identity = PublicKey E sk, Payload = Sign E sk m\<rparr>]\<rparr>"
  using assms eddsa_Signature_ok [OF assms(1), of sk m]
  by (simp add: Certificate_ok_def CertKeyType_const_def len64_def)

section \<open>The concrete instances, evaluated\<close>

lemma be_bytes_2: "be_bytes 2 n = [of_nat (n div 256), of_nat n]"
proof -
  have e: "(2::nat) = Suc (Suc 0)" by simp
  show ?thesis by (subst e) simp
qed

lemma be_bytes_4:
  "be_bytes 4 n = [of_nat (n div 256 div 256 div 256), of_nat (n div 256 div 256),
                   of_nat (n div 256), of_nat n]"
proof -
  have e: "(4::nat) = Suc (Suc (Suc (Suc 0)))" by simp
  show ?thesis by (subst e) simp
qed

lemma be_bytes_8:
  "be_bytes 8 n = [of_nat (n div 256 div 256 div 256 div 256 div 256 div 256 div 256),
                   of_nat (n div 256 div 256 div 256 div 256 div 256 div 256),
                   of_nat (n div 256 div 256 div 256 div 256 div 256),
                   of_nat (n div 256 div 256 div 256 div 256),
                   of_nat (n div 256 div 256 div 256), of_nat (n div 256 div 256),
                   of_nat (n div 256), of_nat n]"
proof -
  have e: "(8::nat) = Suc (Suc (Suc (Suc (Suc (Suc (Suc (Suc 0)))))))" by simp
  show ?thesis by (subst e) simp
qed

lemmas encode_eval =
  Encode_def encode_Certificate_eq encode_Signatures_def encode_Signature_eq
  EncodeString_def EncodeStringBytesRaw_def EncodeUint_def encUint_def bytes_of_def
  cborBaseUint_def cborBaseBytes_def cborBaseString_def cborBaseArray_def cborBaseMap_def
  be_bytes_2 be_bytes_4 be_bytes_8

lemma Encode_cert_v1: "Encode cert_v1 = Inr blob_v1"
  by (simp add: cert_v1_def blob_v1_def encode_eval)

lemma Encode_cert_expired: "Encode cert_expired = Inr blob_expired"
  by (simp add: cert_expired_def blob_expired_def encode_eval)

lemma cert_v1_ok: "Certificate_ok cert_v1"
  by (simp add: Certificate_ok_def Signature_ok_def len64_def cert_v1_def)

lemma cert_expired_ok: "Certificate_ok cert_expired"
  by (simp add: Certificate_ok_def Signature_ok_def len64_def cert_expired_def)

lemma cert_dup_ok: "Certificate_ok cert_dup"
  by (simp add: Certificate_ok_def Signature_ok_def len64_def cert_dup_def)

lemma Decode_blob_v1: "Decode blob_v1 zero_Certificate = Inr cert_v1"
  using cert_v1_ok Encode_cert_v1 by (rule Decode_Encode)

lemma Decode_blob_expired: "Decode blob_expired zero_Certificate = Inr cert_expired"
  using cert_expired_ok Encode_cert_expired by (rule Decode_Encode)

lemma toy_scheme: "eddsa_scheme toy_eddsa"
  by (auto simp: eddsa_scheme_def toy_eddsa_def toy_PublicKey_def toy_tag_def)

lemma toy_PublicKey_1:
  "toy_PublicKey [1] =
     [1, 0, 0, 0, 0, 0, 0, 0, 0, 0, 0, 0, 0, 0, 0, 0,
      0, 0, 0, 0, 0, 0, 0, 0, 0, 0, 0, 0, 0, 0, 0, 0]"
  by (simp add: toy_PublicKey_def eval_nat_numeral)

lemma toy_PublicKey_2:
  "toy_PublicKey [2] =
     [2, 0, 0, 0, 0, 0, 0, 0, 0, 0, 0, 0, 0, 0, 0, 0,
      0, 0, 0, 0, 0, 0, 0, 0, 0, 0, 0, 0, 0, 0, 0, 0]"
  by (simp add: toy_PublicKey_def eval_nat_numeral)

lemma expiry_5259504:
  assumes "Expiration c = 5259504"
  shows "expiry c = \<lparr>sec = 18934214400, nsec = 0\<rparr>"
proof -
  have "exact_expiry (Expiration c)" by (simp add: exact_expiry_def assms)
  then have "expiry c = expiry_instant (Expiration c)" by (rule expiry_exact)
  then show ?thesis by (simp add: expiry_instant_def assms)
qed

lemma not_expired_v1: "\<not> Before (expiry cert_v1) now_2023"
  by (simp add: expiry_5259504 cert_v1_def Before_def now_2023_def)

lemma not_expired_dup: "\<not> Before (expiry cert_dup) now_2023"
  by (simp add: expiry_5259504 cert_dup_def Before_def now_2023_def)

lemma canonical_cert_dup:
  "canonical cert_dup =
     [0, 0, 0, 0, 97, 117, 116, 104, 111, 114, 105, 116, 121,
      240, 64, 80, 0, 0, 0, 0, 0, 101, 100, 50, 53, 53, 49, 57, 42]"
  by (simp add: canonical_def cert_dup_def spec_message_def spec_le_def upt_rec)

lemma canonical_cert_v1:
  "canonical cert_v1 =
     [1, 0, 0, 0, 97, 117, 116, 104, 111, 114, 105, 116, 121,
      240, 64, 80, 0, 0, 0, 0, 0, 114, 115, 97, 42]"
  by (simp add: canonical_def cert_v1_def spec_message_def spec_le_def upt_rec)

lemma valid_dup_second:
  "Verify toy_eddsa (toy_PublicKey [1]) (Payload (Signatures cert_dup ! 1))
     (canonical cert_dup)"
  by (simp add: canonical_cert_dup toy_PublicKey_1 toy_eddsa_def toy_tag_def)
    (simp add: cert_dup_def eval_nat_numeral)

lemma invalid_dup_first:
  "\<not> Verify toy_eddsa (toy_PublicKey [1]) (Payload (Signatures cert_dup ! 0))
       (canonical cert_dup)"
  by (simp add: canonical_cert_dup toy_PublicKey_1 toy_eddsa_def toy_tag_def)
    (simp add: cert_dup_def eval_nat_numeral)

lemma valid_v1:
  "Verify toy_eddsa (toy_PublicKey [1]) (Payload (Signatures cert_v1 ! 0))
     (canonical cert_v1)"
  by (simp add: canonical_cert_v1 toy_PublicKey_1 toy_eddsa_def toy_tag_def)
    (simp add: cert_v1_def eval_nat_numeral)

lemma expired_cert_expired: "Before (expiry cert_expired) now_2023"
proof -
  have "exact_expiry (Expiration cert_expired)"
    by (simp add: exact_expiry_def cert_expired_def)
  then have "expiry cert_expired = expiry_instant (Expiration cert_expired)"
    by (rule expiry_exact)
  then show ?thesis
    by (simp add: expiry_instant_def cert_expired_def Before_def now_2023_def)
qed

lemma len64_blob_expired: "len64 blob_expired"
  by (simp add: len64_def blob_expired_def)

section \<open>The layout of an encoding\<close>

lemma hd_encUint: "hd (encUint v bd) = bd + (if v \<le> 0x17 then of_nat v else
     if v \<le> 0xff then 0x18 else if v \<le> 0xffff then 0x19
     else if v \<le> 0xffffffff then 0x1a else 0x1b)"
  by (simp add: encUint_def)

lemma major_encUint:
  assumes "unat bd mod 32 = 0"
  shows "unat (hd (encUint v bd)) div 32 = unat bd div 32 \<and>
         unat (hd (encUint v bd)) mod 32 < 28"
proof -
  have "\<exists>i::nat. i < 28 \<and> hd (encUint v bd) = bd + of_nat i"
  proof (cases "v \<le> 0x17")
    case True
    then have "v < 28 \<and> hd (encUint v bd) = bd + of_nat v" by (simp add: encUint_def)
    then show ?thesis by blast
  next
    case False
    then have "hd (encUint v bd) = bd + of_nat 24 \<or> hd (encUint v bd) = bd + of_nat 25 \<or>
        hd (encUint v bd) = bd + of_nat 26 \<or> hd (encUint v bd) = bd + of_nat 27"
      by (simp add: encUint_def)
    moreover have "(24::nat) < 28" "(25::nat) < 28" "(26::nat) < 28" "(27::nat) < 28"
      by simp_all
    ultimately show ?thesis by blast
  qed
  then obtain i :: nat where i: "i < 28" and h: "hd (encUint v bd) = bd + of_nat i"
    by blast
  have b: "unat bd < 256" using unsigned_less [of bd] by simp
  from assms obtain q where q: "unat bd = 32 * q" by (auto simp: mod_eq_0_iff_dvd)
  with b have q8: "q < 8" by simp
  have "unat (bd + of_nat i) = (unat bd + i) mod 256"
    by (simp add: unat_word_ariths unat_of_nat mod_simps)
  also have "\<dots> = 32 * q + i" using q q8 i by simp
  finally have u: "unat (hd (encUint v bd)) = 32 * q + i" using h by simp
  show ?thesis using u q i by simp
qed

lemma keys_sorted:
  "sorted_wrt (<) [''CertKeyType'', ''Certified'', ''Expiration'', ''Signatures'',
     ''Type'', ''Version'']"
  by simp


lemma major_types:
  "unat (hd (EncodeString s)) div 32 = 3"
  "unat (hd (EncodeStringBytesRaw bs)) div 32 = 2"
  "unat (hd (EncodeUint n)) div 32 = 0"
  "unat (hd (encode_Signatures ss)) div 32 = 4"
  "unat (hd (encode_Signature sg)) div 32 = 5"
  "unat (hd (encode_Signatures ss)) mod 32 < 28"
  using major_encUint [of cborBaseString "length s"]
    major_encUint [of cborBaseBytes "length bs"]
    major_encUint [of cborBaseUint n]
    major_encUint [of cborBaseArray "length ss"]
    major_encUint [of cborBaseMap 2]
  by (simp_all add: EncodeString_def EncodeStringBytesRaw_def EncodeUint_def
      encode_Signatures_def encode_Signature_eq hd_append encUint_def
      cborBaseUint_def cborBaseBytes_def cborBaseString_def cborBaseArray_def cborBaseMap_def)

lemma map_heads: "encUint 6 cborBaseMap = [0xa6]" "encUint 2 cborBaseMap = [0xa2]"
  by (simp_all add: encUint_def cborBaseMap_def)

lemma Certificate_keys:
  "map fst (sort_key fst (Certificate_fields c)) =
     [''CertKeyType'', ''Certified'', ''Expiration'', ''Signatures'', ''Type'', ''Version'']"
  by (simp add: Certificate_fields_def)

lemma Signature_keys:
  "map fst (sort_key fst (Signature_fields s)) = [''Identity'', ''Payload'']"
  by (simp add: Signature_fields_def)

lemma vector_created:
  assumes "PublicKey E vector_signingKey = vector_publicKey"
    and "Sign E vector_signingKey
           (spec_message CertVersion ''authority'' vector_expiration CertKeyType_const
              vector_toSign) = vector_signature"
  shows "CreateCertificate E vector_signingKey vector_toSign ''authority'' vector_expiration =
           Inr vector_payload"
  unfolding CreateCertificate_eq assms
  by (simp add: vector_publicKey_def vector_signature_def vector_toSign_def
      vector_expiration_def vector_payload_def CertVersion_def CertKeyType_const_def
      encode_eval)

section \<open>The verifiers on the concrete certificates\<close>

lemma Before_irrefl: "\<not> Before t t"
  by (simp add: Before_def)

lemma exact_expired: "exact_expiry (Expiration cert_expired)"
  by (simp add: exact_expiry_def cert_expired_def)

lemma expired_instant: "Before (expiry_instant (Expiration cert_expired)) now_2023"
  using expired_cert_expired expiry_exact [OF exact_expired] by simp

lemma one_signature_v1: "length (Signatures cert_v1) = 1"
  by (simp add: cert_v1_def)

lemma find_v1:
  "find (\<lambda>s. toy_PublicKey [1] = Identity s) (Signatures cert_v1) =
     Some (Signatures cert_v1 ! 0)"
  by (simp add: toy_PublicKey_1) (simp add: cert_v1_def)

section \<open>A certificate of two signers\<close>

lemma Decode_error:
  assumes "Decode rawCert c = Inl err"
  shows "err = ErrDecode"
  using assms by (auto simp: Decode_def split: option.splits if_splits)

lemma VerifyMulti_no_count_error: "VerifyMulti E now rawCert publicKey \<noteq> Inl ErrOneSignatureOnly"
proof (cases "Decode rawCert zero_Certificate")
  case (Inl err)
  then have "err = ErrDecode" by (rule Decode_error)
  with Inl show ?thesis by (simp add: VerifyMulti_def)
next
  case (Inr cert)
  then show ?thesis by (simp add: VerifyMulti_eq)
qed

lemma two_signatures:
  assumes E: "eddsa_scheme E"
    and p: "len64 toSign" and t: "len64 certType"
    and x: "exact_expiry expiration"
    and n: "\<not> Before (expiry_instant expiration) now"
  shows "\<exists>raw1 raw2.
           CreateCertificate E sk1 toSign certType expiration = Inr raw1 \<and>
           SignMultiCertificate E sk2 raw1 = Inr raw2 \<and>
           VerifyCertificate E now raw2 (PublicKey E sk1) = Inl ErrOneSignatureOnly \<and>
           VerifyCertificate E now raw2 (PublicKey E sk2) = Inl ErrOneSignatureOnly \<and>
           VerifyMulti E now raw2 (PublicKey E sk1) = Inr True \<and>
           VerifyMulti E now raw2 (PublicKey E sk2) = Inr True"
proof -
  let ?m = "spec_message CertVersion certType expiration CertKeyType_const toSign"
  let ?s1 = "\<lparr>Identity = PublicKey E sk1, Payload = Sign E sk1 ?m\<rparr>"
  let ?s2 = "\<lparr>Identity = PublicKey E sk2, Payload = Sign E sk2 ?m\<rparr>"
  let ?c1 = "\<lparr>Version = CertVersion, Type = certType, Expiration = expiration,
      CertKeyType = CertKeyType_const, Certified = toSign, Signatures = [?s1]\<rparr>"
  let ?c2 = "\<lparr>Version = CertVersion, Type = certType, Expiration = expiration,
      CertKeyType = CertKeyType_const, Certified = toSign, Signatures = [?s1, ?s2]\<rparr>"
  let ?raw1 = "encode_struct (Certificate_fields ?c1)"
  let ?raw2 = "encode_struct (Certificate_fields ?c2)"
  have create: "CreateCertificate E sk1 toSign certType expiration = Inr ?raw1"
    by (simp only: CreateCertificate_eq Encode_eq)
  have ok1: "Certificate_ok ?c1" using E p t by (rule created_ok)
  then have d1: "Decode ?raw1 zero_Certificate = Inr ?c1"
    by (rule Decode_Encode) (rule Encode_eq)
  have m1: "canonical ?c1 = ?m" by (simp add: canonical_def)
  have sign: "SignMultiCertificate E sk2 ?raw1 = Inr ?raw2"
    by (simp add: SignMultiCertificate_eq [OF d1] m1 Encode_eq)
  have "Certificate_ok ?c2"
    using ok1 eddsa_Signature_ok [OF E, of sk2 ?m]
    by (simp add: Certificate_ok_def len64_def)
  then have d2: "Decode ?raw2 zero_Certificate = Inr ?c2"
    by (rule Decode_Encode) (rule Encode_eq)
  have e: "expiry ?c2 = expiry_instant expiration"
    using x expiry_exact [of ?c2] by simp
  have m2: "canonical ?c2 = ?m" by (simp add: canonical_def)
  have v: "Verify E (PublicKey E sk) (Sign E sk ?m) ?m" for sk
    using E by (simp add: eddsa_scheme_def)
  have strict: "VerifyCertificate E now ?raw2 pk = Inl ErrOneSignatureOnly" for pk
    by (simp add: VerifyCertificate_eq [OF d2])
  have multi1: "VerifyMulti E now ?raw2 (PublicKey E sk1) = Inr True"
    using n v [of sk1] by (simp add: VerifyMulti_eq [OF d2] e m2)
  have multi2: "VerifyMulti E now ?raw2 (PublicKey E sk2) = Inr True"
  proof (cases "PublicKey E sk2 = PublicKey E sk1")
    case True
    with multi1 show ?thesis by simp
  next
    case False
    with n v [of sk2] show ?thesis by (simp add: VerifyMulti_eq [OF d2] e m2)
  qed
  from create sign strict multi1 multi2 show ?thesis by blast
qed

section \<open>Creating and verifying\<close>

lemma round_trip:
  assumes "eddsa_scheme E"
    and "len64 toSign" and "len64 certType"
    and "\<not> Before (time_Unix (expiration * hourSeconds) 0) now"
  shows "\<exists>rawCert. CreateCertificate E signingKey toSign certType expiration = Inr rawCert \<and>
           VerifyCertificate E now rawCert (PublicKey E signingKey) = Inr True"
proof -
  let ?m = "spec_message CertVersion certType expiration CertKeyType_const toSign"
  let ?cert = "\<lparr>Version = CertVersion, Type = certType, Expiration = expiration,
      CertKeyType = CertKeyType_const, Certified = toSign,
      Signatures = [\<lparr>Identity = PublicKey E signingKey,
                     Payload = Sign E signingKey ?m\<rparr>]\<rparr>"
  let ?raw = "encode_struct (Certificate_fields ?cert)"
  have c: "CreateCertificate E signingKey toSign certType expiration = Inr ?raw"
    by (simp only: CreateCertificate_eq Encode_eq)
  have "Certificate_ok ?cert" using assms(1,2,3) by (rule created_ok)
  then have d: "Decode ?raw zero_Certificate = Inr ?cert"
    by (rule Decode_Encode) (rule Encode_eq)
  have e: "expiry ?cert = time_Unix (expiration * hourSeconds) 0"
    by (simp add: expiry_def)
  have m: "canonical ?cert = ?m" by (simp add: canonical_def)
  have v: "Verify E (PublicKey E signingKey) (Sign E signingKey ?m) ?m"
    using assms(1) by (simp add: eddsa_scheme_def)
  have "VerifyCertificate E now ?raw (PublicKey E signingKey) = Inr True"
    using assms(4) v by (simp add: VerifyCertificate_eq [OF d] e m)
  with c show ?thesis by blast
qed

lemma Encode_cert_far: "Encode cert_far = Inr blob_far"
  by (simp add: cert_far_def blob_far_def encode_eval)

lemma cert_far_ok: "Certificate_ok cert_far"
  by (simp add: Certificate_ok_def Signature_ok_def len64_def cert_far_def)

lemma Decode_blob_far: "Decode blob_far zero_Certificate = Inr cert_far"
  using cert_far_ok Encode_cert_far by (rule Decode_Encode)

lemma created_far:
  "CreateCertificate toy_eddsa [1] [42] ''authority'' 18446744073709551615 = Inr blob_far"
proof -
  have m: "spec_message CertVersion ''authority'' 18446744073709551615 CertKeyType_const [42] =
     [0, 0, 0, 0, 97, 117, 116, 104, 111, 114, 105, 116, 121,
      255, 255, 255, 255, 255, 255, 255, 255, 101, 100, 50, 53, 53, 49, 57, 42]"
    by (simp add: spec_message_def spec_le_def upt_rec CertVersion_def CertKeyType_const_def
        bytes_of_def)
  have "\<lparr>Version = CertVersion, Type = ''authority'', Expiration = 18446744073709551615,
          CertKeyType = CertKeyType_const, Certified = [42],
          Signatures =
            [\<lparr>Identity = PublicKey toy_eddsa [1],
              Payload = Sign toy_eddsa [1]
                (spec_message CertVersion ''authority'' 18446744073709551615
                   CertKeyType_const [42])\<rparr>]\<rparr> = cert_far"
    unfolding m
    by (simp add: toy_eddsa_def toy_PublicKey_1 toy_tag_def cert_far_def CertVersion_def
        CertKeyType_const_def eval_nat_numeral)
  then show ?thesis by (simp only: CreateCertificate_eq Encode_cert_far)
qed

lemma expiry_cert_far: "expiry cert_far = \<lparr>sec = - 3600, nsec = 0\<rparr>"
  by (simp add: expiry_def time_Unix_def cert_far_def hourSeconds_def unixToInternal_def)

lemma far_future: "\<not> Before (expiry_instant 18446744073709551615) now_2023"
  by (simp add: expiry_instant_def Before_def now_2023_def)

section \<open>The encoder sorts the fields\<close>

lemma filter_key_distinct:
  assumes "distinct (map f xs)" and "k \<in> set xs"
  shows "filter (\<lambda>x. f k = f x) xs = [k]"
  using assms
proof (induction xs)
  case Nil
  then show ?case by simp
next
  case (Cons a xs)
  show ?case
  proof (cases "k = a")
    case True
    from Cons.prems(1) have "\<forall>x \<in> set xs. f a \<noteq> f x" by auto
    then have "filter (\<lambda>x. f a = f x) xs = []" by (simp add: filter_empty_conv)
    with True show ?thesis by simp
  next
    case False
    with Cons.prems have k: "k \<in> set xs" and d: "distinct (map f xs)" by simp_all
    from Cons.prems(1) have "f a \<notin> f ` set xs" by simp
    with k have "f k \<noteq> f a" by (metis imageI)
    with Cons.IH [OF d k] show ?thesis by simp
  qed
qed

lemma sort_key_permutation:
  assumes "mset fs = mset gs" and "distinct (map f gs)"
  shows "sort_key f fs = sort_key f gs"
proof (rule properties_for_sort_key)
  show "mset (sort_key f gs) = mset fs" using assms(1) by simp
  show "sorted (map f (sort_key f gs))" by simp
next
  fix k
  assume "k \<in> set (sort_key f gs)"
  then have kg: "k \<in> set gs" by simp
  then have kf: "k \<in> set fs" using assms(1) by (metis mset_eq_setD)
  have "mset (map f fs) = mset (map f gs)" using assms(1) by simp
  then have df: "distinct (map f fs)" using assms(2) by (metis mset_eq_imp_distinct_iff)
  have ds: "distinct (map f (sort_key f gs))" using assms(2) by (simp add: distinct_map)
  have "filter (\<lambda>x. f k = f x) (sort_key f gs) = [k]"
    using ds kg by (intro filter_key_distinct) simp_all
  moreover have "filter (\<lambda>x. f k = f x) fs = [k]" using df kf by (rule filter_key_distinct)
  ultimately show "filter (\<lambda>x. f k = f x) (sort_key f gs) = filter (\<lambda>x. f k = f x) fs"
    by simp
qed

lemma encode_struct_permutation:
  assumes "mset fs = mset gs" and "distinct (map fst gs)"
  shows "encode_struct fs = encode_struct gs"
proof -
  have "length fs = length gs" using assms(1) by (rule mset_eq_length)
  then show ?thesis by (simp add: encode_struct_def sort_key_permutation [OF assms])
qed

lemma Certificate_fields_distinct: "distinct (map fst (Certificate_fields c))"
  by (simp add: Certificate_fields_def)

section \<open>Blobs that decode and that the encoder does not write\<close>

lemma Decode_empty_map: "Decode [0xa0] zero_Certificate = Inr zero_Certificate"
  by (simp add: Decode_def dec_head_def)

lemma Encode_not_empty_map: "Encode zero_Certificate \<noteq> Inr [0xa0]"
  by (simp add: Encode_eq encode_Certificate_eq map_heads)

lemma Decode_trailing: "Decode (blob_v1 @ [0xff]) zero_Certificate = Inr cert_v1"
proof -
  have "Decode (encode_struct (Certificate_fields cert_v1) @ [0xff]) zero_Certificate =
      Inr cert_v1"
    using cert_v1_ok by (rule Decode_encode)
  moreover have "encode_struct (Certificate_fields cert_v1) = blob_v1"
    using Encode_cert_v1 by (simp add: Encode_eq)
  ultimately show ?thesis by simp
qed

lemma Encode_not_trailing: "Encode cert_v1 \<noteq> Inr (blob_v1 @ [0xff])"
  by (simp add: Encode_cert_v1)

section \<open>The claims\<close>

text \<open>
  Claim C2. For every certificate, the canonical message that is signed and verified is
  the concatenation, in this order, of the 4-byte little-endian unsigned version, the raw
  bytes of the declared type, the 8-byte little-endian unsigned expiration in hours, the
  raw bytes of the key algorithm and the raw bytes of the certified payload, with no length
  prefix and no separator; it is a function of these five fields and does not depend on
  the list of signatures.
\<close>

theorem C2_canonical_message:
  "message c =
     Inr (spec_message (Version c) (Type c) (Expiration c) (CertKeyType c) (Certified c)) \<and>
   message (c\<lparr>Signatures := ss\<rparr>) = message c"
  by (simp add: message_eq canonical_def)

text \<open>An instance of claim C2, at a certificate with one signature.\<close>

theorem C2_canonical_message_witness:
  "message \<lparr>Version = 0, Type = ''authority'', Expiration = 5259504,
            CertKeyType = ''ed25519'', Certified = [42],
            Signatures = [\<lparr>Identity = [1], Payload = [2]\<rparr>]\<rparr> =
     Inr [0, 0, 0, 0, 97, 117, 116, 104, 111, 114, 105, 116, 121,
          240, 64, 80, 0, 0, 0, 0, 0, 101, 100, 50, 53, 53, 49, 57, 42] \<and>
   message \<lparr>Version = 0, Type = ''authority'', Expiration = 5259504,
            CertKeyType = ''ed25519'', Certified = [42], Signatures = []\<rparr> =
     Inr [0, 0, 0, 0, 97, 117, 116, 104, 111, 114, 105, 116, 121,
          240, 64, 80, 0, 0, 0, 0, 0, 101, 100, 50, 53, 53, 49, 57, 42]"
  using C2_canonical_message
    [of "\<lparr>Version = 0, Type = ''authority'', Expiration = 5259504,
          CertKeyType = ''ed25519'', Certified = [42],
          Signatures = [\<lparr>Identity = [1], Payload = [2]\<rparr>]\<rparr>" "[]"]
  by (simp add: spec_message_def spec_le_def upt_rec)

text \<open>
  Claim C1 states that, for every signing key pair, payload, declared type and
  expiration whose expiry instant is in the future, \<open>VerifyCertificate\<close>, called on the
  blob that \<open>CreateCertificate\<close> returns and on the public key of the signing key, returns
  true with no error. The verifier computes the instant as the product
  \<^verbatim>\<open>cert.Expiration*hourSeconds\<close> in \<^verbatim>\<open>uint64\<close>, read as an \<^verbatim>\<open>int64\<close>; the round trip
  holds whenever the instant so computed is not before the current time (lemma
  \<open>round_trip\<close>). For the expiration of \<open>2 ^ 64 - 1\<close> hours, whose expiry instant is far
  in the future, the product wraps around to \<open>- 3600\<close> seconds: \<open>CreateCertificate\<close> returns
  the blob \<open>blob_far\<close>, and \<open>VerifyCertificate\<close> in 2023 returns the expired error for it.
\<close>

theorem C1_far_future_expired:
  "eddsa_scheme toy_eddsa \<and>
   CreateCertificate toy_eddsa [1] [42] ''authority'' 18446744073709551615 = Inr blob_far \<and>
   \<not> Before (expiry_instant 18446744073709551615) now_2023 \<and>
   expiry cert_far = \<lparr>sec = - 3600, nsec = 0\<rparr> \<and>
   VerifyCertificate toy_eddsa now_2023 blob_far (PublicKey toy_eddsa [1]) =
     Inl ErrCertificateExpired"
proof -
  have "length (Signatures cert_far) = 1" by (simp add: cert_far_def)
  moreover have "Before (expiry cert_far) now_2023"
    by (simp add: expiry_cert_far Before_def now_2023_def)
  ultimately have "VerifyCertificate toy_eddsa now_2023 blob_far (PublicKey toy_eddsa [1]) =
      Inl ErrCertificateExpired"
    by (simp add: VerifyCertificate_eq [OF Decode_blob_far])
  with toy_scheme created_far far_future expiry_cert_far show ?thesis by simp
qed

text \<open>
  Claim C4, as the specification states it: encoding again a certificate obtained by
  decoding a valid blob reproduces the bytes of the blob. Two blobs that decode, and
  whose certificates have another encoding: the empty map, which decodes to the
  certificate of zero values, and the encoding of \<open>cert_v1\<close> followed by one more byte,
  which decodes to \<open>cert_v1\<close>.
\<close>

theorem C4_counterexample:
  "Decode [0xa0] zero_Certificate = Inr zero_Certificate \<and>
   Encode zero_Certificate \<noteq> Inr [0xa0] \<and>
   Decode (blob_v1 @ [0xff]) zero_Certificate = Inr cert_v1 \<and>
   Encode cert_v1 \<noteq> Inr (blob_v1 @ [0xff])"
  using Decode_empty_map Encode_not_empty_map Decode_trailing Encode_not_trailing
  by (intro conjI)

text \<open>
  Claim C4, amended. Encoding is deterministic: every certificate of Go values has an
  encoding, and the encoder writes the same bytes in whatever order it is given the six
  fields, since it writes the entries of the map in the order of their keys; no other
  certificate of Go values has the same bytes. Encoding again a certificate obtained by
  decoding a blob that the encoder produced reproduces the bytes of the blob: the
  encoding decodes, into any certificate, to the certificate that was encoded.
\<close>

theorem C4_reencode_encoded:
  assumes "Certificate_ok c"
  shows "\<exists>blob. Encode c = Inr blob \<and>
           (\<forall>fs. mset fs = mset (Certificate_fields c) \<longrightarrow> encode_struct fs = blob) \<and>
           (\<forall>c0. Decode blob c0 = Inr c) \<and>
           (\<forall>d. Certificate_ok d \<and> Encode d = Inr blob \<longrightarrow> d = c)"
proof -
  let ?blob = "encode_struct (Certificate_fields c)"
  have e: "Encode c = Inr ?blob" by (rule Encode_eq)
  have p: "encode_struct fs = ?blob" if "mset fs = mset (Certificate_fields c)" for fs
    using that Certificate_fields_distinct by (rule encode_struct_permutation)
  have d: "Decode ?blob c0 = Inr c" for c0 using assms e by (rule Decode_Encode)
  have "d' = c" if "Certificate_ok d' \<and> Encode d' = Inr ?blob" for d'
  proof -
    from that have "Decode ?blob zero_Certificate = Inr d'" by (intro Decode_Encode) simp_all
    with d [of zero_Certificate] show ?thesis by simp
  qed
  with e p d show ?thesis by blast
qed

text \<open>
  An instance of the amended claim C4: the certificate \<open>cert_v1\<close> and its 199 bytes,
  which the encoder also writes from the fields in the opposite order.
\<close>

theorem C4_reencode_encoded_witness:
  "Certificate_ok cert_v1 \<and> Encode cert_v1 = Inr blob_v1 \<and>
   encode_struct (rev (Certificate_fields cert_v1)) = blob_v1 \<and>
   Decode blob_v1 zero_Certificate = Inr cert_v1"
proof -
  from C4_reencode_encoded [OF cert_v1_ok] obtain blob where
    e: "Encode cert_v1 = Inr blob"
    and p: "\<forall>fs. mset fs = mset (Certificate_fields cert_v1) \<longrightarrow> encode_struct fs = blob"
    and d: "\<forall>c0. Decode blob c0 = Inr cert_v1"
    by blast
  from e have b: "blob = blob_v1" by (simp add: Encode_cert_v1)
  have "mset (rev (Certificate_fields cert_v1)) = mset (Certificate_fields cert_v1)" by simp
  with p have "encode_struct (rev (Certificate_fields cert_v1)) = blob" by blast
  with e d b cert_v1_ok show ?thesis by simp
qed

text \<open>
  Claim C8. For every blob that decodes and every signing key, \<open>SignMultiCertificate\<close>
  returns a blob that decodes to the certificate with one more signature at the end of
  its list: the identity is the public key of the signing key, the payload its signature
  of the canonical message; the signatures before it keep their order, and Version,
  Type, Expiration, CertKeyType and Certified are what they were. Nothing depends on the
  current time, so an expired certificate is co-signed as well, and nothing depends on
  the identities already in the list, so a key that signs again adds a duplicate.
\<close>

theorem C8_cosign_appends:
  assumes "eddsa_scheme E"
    and "len64 rawCert"
    and "Decode rawCert zero_Certificate = Inr cert"
  shows "\<exists>out. SignMultiCertificate E signingKey rawCert = Inr out \<and>
           Decode out zero_Certificate =
             Inr (cert\<lparr>Signatures := Signatures cert @
                    [\<lparr>Identity = PublicKey E signingKey,
                      Payload = Sign E signingKey (canonical cert)\<rparr>]\<rparr>)"
proof -
  let ?cert = "cert\<lparr>Signatures := Signatures cert @
      [\<lparr>Identity = PublicKey E signingKey,
        Payload = Sign E signingKey (canonical cert)\<rparr>]\<rparr>"
  have "Certificate_ok ?cert" using assms by (rule cosigned_ok)
  then have "Decode (encode_struct (Certificate_fields ?cert)) zero_Certificate = Inr ?cert"
    by (rule Decode_Encode) (rule Encode_eq)
  moreover have "SignMultiCertificate E signingKey rawCert =
      Inr (encode_struct (Certificate_fields ?cert))"
    using assms(3) by (simp only: SignMultiCertificate_eq Encode_eq)
  ultimately show ?thesis by blast
qed

text \<open>
  An instance of claim C8: the certificate \<open>cert_expired\<close>, which expired in 1970 and
  which the private keys \<open>[1]\<close> and \<open>[2]\<close> have signed, is signed by \<open>[2]\<close> again.
\<close>

theorem C8_cosign_appends_witness:
  "eddsa_scheme toy_eddsa \<and> len64 blob_expired \<and>
   Decode blob_expired zero_Certificate = Inr cert_expired \<and>
   Before (expiry cert_expired) now_2023 \<and>
   Identity (Signatures cert_expired ! 1) = PublicKey toy_eddsa [2] \<and>
   (\<exists>out. SignMultiCertificate toy_eddsa [2] blob_expired = Inr out \<and>
      Decode out zero_Certificate =
        Inr (cert_expired\<lparr>Signatures := Signatures cert_expired @
               [\<lparr>Identity = PublicKey toy_eddsa [2],
                 Payload = Sign toy_eddsa [2] (canonical cert_expired)\<rparr>]\<rparr>))"
proof -
  have "Identity (Signatures cert_expired ! 1) = PublicKey toy_eddsa [2]"
    by (simp add: toy_eddsa_def toy_PublicKey_2) (simp add: cert_expired_def)
  with C8_cosign_appends [OF toy_scheme len64_blob_expired Decode_blob_expired, of "[2]"]
    toy_scheme len64_blob_expired Decode_blob_expired expired_cert_expired
  show ?thesis by blast
qed

text \<open>
  Claim C9. For every blob that decodes and is not expired, if no entry of the signature
  list has the raw bytes of the given public key as its identity, \<open>VerifyMulti\<close> returns
  false with no error. When an entry has that identity, the result is what the signature
  check of the first such entry says, again with no error: an invalid signature gives
  false through the check, an absent identity gives false without one.
\<close>

theorem C9_identity_not_found:
  assumes "Decode rawCert zero_Certificate = Inr cert"
    and "\<not> Before (expiry cert) now"
  shows "((\<forall>s\<in>set (Signatures cert). Identity s \<noteq> publicKey) \<longrightarrow>
           VerifyMulti E now rawCert publicKey = Inr False) \<and>
         (\<forall>s. find (\<lambda>s. publicKey = Identity s) (Signatures cert) = Some s \<longrightarrow>
           VerifyMulti E now rawCert publicKey =
             Inr (Verify E publicKey (Payload s) (canonical cert)))"
proof (intro conjI impI allI)
  assume "\<forall>s\<in>set (Signatures cert). Identity s \<noteq> publicKey"
  then have "find (\<lambda>s. publicKey = Identity s) (Signatures cert) = None"
    by (intro find_none) auto
  with assms show "VerifyMulti E now rawCert publicKey = Inr False"
    by (simp add: VerifyMulti_eq)
next
  fix s
  assume "find (\<lambda>s. publicKey = Identity s) (Signatures cert) = Some s"
  with assms show "VerifyMulti E now rawCert publicKey =
      Inr (Verify E publicKey (Payload s) (canonical cert))"
    by (simp add: VerifyMulti_eq)
qed

text \<open>
  An instance of claim C9: the certificate \<open>cert_v1\<close> carries the signature of the
  private key \<open>[1]\<close> only, and is verified for the public key of \<open>[2]\<close>.
\<close>

theorem C9_identity_not_found_witness:
  "Decode blob_v1 zero_Certificate = Inr cert_v1 \<and>
   \<not> Before (expiry cert_v1) now_2023 \<and>
   list_all (\<lambda>s. Identity s \<noteq> toy_PublicKey [2]) (Signatures cert_v1) \<and>
   VerifyMulti toy_eddsa now_2023 blob_v1 (toy_PublicKey [2]) = Inr False"
proof -
  have a: "\<forall>s\<in>set (Signatures cert_v1). Identity s \<noteq> toy_PublicKey [2]"
    by (simp add: cert_v1_def toy_PublicKey_2)
  from C9_identity_not_found
    [OF Decode_blob_v1 not_expired_v1, of "toy_PublicKey [2]" toy_eddsa] a
  have "VerifyMulti toy_eddsa now_2023 blob_v1 (toy_PublicKey [2]) = Inr False"
    by blast
  with a Decode_blob_v1 not_expired_v1 show ?thesis by (simp add: list_all_iff)
qed

text \<open>
  Claim C10. The result of \<open>VerifyMulti\<close> is decided by the first entry of the signature
  list whose identity is the given public key: for a blob that decodes and is not
  expired, it is the validity of that entry's signature, whatever the entries after it
  are; when that signature is invalid the result is false, also when a later entry of the
  same identity carries a valid signature.
\<close>

theorem C10_first_match_decides:
  assumes "Decode rawCert zero_Certificate = Inr cert"
    and "\<not> Before (expiry cert) now"
    and "Signatures cert = pre @ s # post"
    and "\<forall>x\<in>set pre. Identity x \<noteq> publicKey"
    and "Identity s = publicKey"
  shows "VerifyMulti E now rawCert publicKey =
           Inr (Verify E publicKey (Payload s) (canonical cert)) \<and>
         (\<not> Verify E publicKey (Payload s) (canonical cert) \<longrightarrow>
           VerifyMulti E now rawCert publicKey = Inr False)"
proof -
  have "find (\<lambda>s. publicKey = Identity s) (pre @ s # post) = Some s"
    using assms(4,5) by (intro find_first) auto
  with assms(1,2,3) show ?thesis by (simp add: VerifyMulti_eq)
qed

text \<open>
  An instance of claim C10: in \<open>cert_dup\<close> the first entry of the identity of the private
  key \<open>[1]\<close> is invalid and the second is valid, and \<open>VerifyMulti\<close> returns false.
\<close>

theorem C10_first_match_decides_witness:
  "Decode (encode_struct (Certificate_fields cert_dup)) zero_Certificate = Inr cert_dup \<and>
   \<not> Before (expiry cert_dup) now_2023 \<and>
   Signatures cert_dup = [] @ (Signatures cert_dup ! 0) # [Signatures cert_dup ! 1] \<and>
   Identity (Signatures cert_dup ! 0) = toy_PublicKey [1] \<and>
   Identity (Signatures cert_dup ! 1) = toy_PublicKey [1] \<and>
   \<not> Verify toy_eddsa (toy_PublicKey [1]) (Payload (Signatures cert_dup ! 0))
       (canonical cert_dup) \<and>
   Verify toy_eddsa (toy_PublicKey [1]) (Payload (Signatures cert_dup ! 1))
     (canonical cert_dup) \<and>
   VerifyMulti toy_eddsa now_2023 (encode_struct (Certificate_fields cert_dup))
     (toy_PublicKey [1]) = Inr False"
proof -
  have d: "Decode (encode_struct (Certificate_fields cert_dup)) zero_Certificate =
      Inr cert_dup"
    using cert_dup_ok Encode_eq by (rule Decode_Encode)
  have s: "Signatures cert_dup = [] @ (Signatures cert_dup ! 0) # [Signatures cert_dup ! 1]"
    by (simp add: cert_dup_def)
  have p: "\<forall>x\<in>set []. Identity x \<noteq> toy_PublicKey [1]" by simp
  have i0: "Identity (Signatures cert_dup ! 0) = toy_PublicKey [1]"
    by (simp add: toy_PublicKey_1) (simp add: cert_dup_def)
  have i1: "Identity (Signatures cert_dup ! 1) = toy_PublicKey [1]"
    by (simp add: toy_PublicKey_1) (simp add: cert_dup_def)
  from C10_first_match_decides [OF d not_expired_dup s p i0, of toy_eddsa] invalid_dup_first
  have "VerifyMulti toy_eddsa now_2023 (encode_struct (Certificate_fields cert_dup))
      (toy_PublicKey [1]) = Inr False"
    by blast
  with d not_expired_dup s i0 i1 invalid_dup_first valid_dup_second show ?thesis
    by blast
qed

text \<open>
  Claim C3. The encoding of a certificate is a definite-length map of exactly six
  entries, its keys in strict lexicographic order: \<open>CertKeyType\<close>, a text item;
  \<open>Certified\<close>, a byte string; \<open>Expiration\<close>, an unsigned integer; \<open>Signatures\<close>, a
  definite-length array of maps of two entries, \<open>Identity\<close> and then \<open>Payload\<close>, both byte
  strings; \<open>Type\<close>, a text item; \<open>Version\<close>, an unsigned integer. For the signing key, the
  payload, the type \<open>authority\<close> and the expiration of the first reference vector, 600
  years after the Unix epoch, \<open>CreateCertificate\<close> returns the bytes of the vector, with
  any signature scheme that gives the public key and the signature that the vector
  records.
\<close>

theorem C3_serialized_layout:
  "Encode c =
     Inr (0xa6 #
          EncodeString ''CertKeyType'' @ EncodeString (CertKeyType c) @
          EncodeString ''Certified'' @ EncodeStringBytesRaw (Certified c) @
          EncodeString ''Expiration'' @ EncodeUint (unat (Expiration c)) @
          EncodeString ''Signatures'' @ encode_Signatures (Signatures c) @
          EncodeString ''Type'' @ EncodeString (Type c) @
          EncodeString ''Version'' @ EncodeUint (unat (Version c))) \<and>
   map fst (sort_key fst (Certificate_fields c)) =
     [''CertKeyType'', ''Certified'', ''Expiration'', ''Signatures'', ''Type'', ''Version''] \<and>
   sorted_wrt (<) (map fst (sort_key fst (Certificate_fields c))) \<and>
   encode_Signatures ss =
     encUint (length ss) cborBaseArray @ concat (map encode_Signature ss) \<and>
   encode_Signature sg =
     0xa2 # EncodeString ''Identity'' @ EncodeStringBytesRaw (Identity sg) @
            EncodeString ''Payload'' @ EncodeStringBytesRaw (Payload sg) \<and>
   unat (hd (EncodeString s)) div 32 = 3 \<and>
   unat (hd (EncodeStringBytesRaw bs)) div 32 = 2 \<and>
   unat (hd (EncodeUint n)) div 32 = 0 \<and>
   unat (hd (encode_Signatures ss)) div 32 = 4 \<and>
   unat (hd (encode_Signatures ss)) mod 32 < 28 \<and>
   unat vector_expiration * unat hourSeconds = 18934214400 \<and>
   (PublicKey E vector_signingKey = vector_publicKey \<longrightarrow>
    Sign E vector_signingKey
      (spec_message CertVersion ''authority'' vector_expiration CertKeyType_const
         vector_toSign) = vector_signature \<longrightarrow>
    CreateCertificate E vector_signingKey vector_toSign ''authority'' vector_expiration =
      Inr vector_payload)"
proof -
  have "sorted_wrt (<) (map fst (sort_key fst (Certificate_fields c)))"
    unfolding Certificate_keys by (rule keys_sorted)
  moreover have "unat vector_expiration * unat hourSeconds = 18934214400"
    by (simp add: vector_expiration_def unat_hourSeconds)
  moreover have "Encode c =
     Inr (0xa6 #
          EncodeString ''CertKeyType'' @ EncodeString (CertKeyType c) @
          EncodeString ''Certified'' @ EncodeStringBytesRaw (Certified c) @
          EncodeString ''Expiration'' @ EncodeUint (unat (Expiration c)) @
          EncodeString ''Signatures'' @ encode_Signatures (Signatures c) @
          EncodeString ''Type'' @ EncodeString (Type c) @
          EncodeString ''Version'' @ EncodeUint (unat (Version c)))"
    by (simp only: Encode_eq encode_Certificate_eq map_heads append_Cons append_Nil)
  moreover have "encode_Signature sg =
     0xa2 # EncodeString ''Identity'' @ EncodeStringBytesRaw (Identity sg) @
            EncodeString ''Payload'' @ EncodeStringBytesRaw (Payload sg)"
    by (simp only: encode_Signature_eq map_heads append_Cons append_Nil)
  ultimately show ?thesis
    using Certificate_keys [of c] major_types(1) [of s] major_types(2) [of bs]
      major_types(3) [of n] major_types(4) [of ss] major_types(6) [of ss]
      vector_created [of E] encode_Signatures_def [of ss]
    by (intro conjI impI) assumption+
qed

text \<open>
  An instance of claim C3: a scheme with the public key and the signature of the
  reference vector.
\<close>

theorem C3_serialized_layout_witness:
  "PublicKey vector_eddsa vector_signingKey = vector_publicKey \<and>
   Sign vector_eddsa vector_signingKey
     (spec_message CertVersion ''authority'' vector_expiration CertKeyType_const
        vector_toSign) = vector_signature \<and>
   CreateCertificate vector_eddsa vector_signingKey vector_toSign ''authority''
     vector_expiration = Inr vector_payload \<and>
   length vector_payload = 235"
proof -
  have p: "PublicKey vector_eddsa vector_signingKey = vector_publicKey"
    by (simp add: vector_eddsa_def vector_signingKey_def vector_publicKey_def)
  have s: "Sign vector_eddsa vector_signingKey
     (spec_message CertVersion ''authority'' vector_expiration CertKeyType_const
        vector_toSign) = vector_signature"
    by (simp add: vector_eddsa_def)
  have l: "length vector_payload = 235" by (simp add: vector_payload_def)
  from C3_serialized_layout [of _ _ _ _ _ _ vector_eddsa] p s l show ?thesis by blast
qed

text \<open>
  Claim C5, as the specification states it: a blob that decodes to a certificate of
  another version or key algorithm is not verified, and the failure is reported as an
  unsupported version or algorithm. The code has no such check: the certificate
  \<open>cert_v1\<close>, of version 1 and key algorithm \<open>rsa\<close>, verifies.
\<close>

theorem C5_counterexample:
  "Decode blob_v1 zero_Certificate = Inr cert_v1 \<and>
   Version cert_v1 \<noteq> CertVersion \<and>
   CertKeyType cert_v1 \<noteq> CertKeyType_const \<and>
   VerifyCertificate toy_eddsa now_2023 blob_v1 (toy_PublicKey [1]) = Inr True \<and>
   VerifyMulti toy_eddsa now_2023 blob_v1 (toy_PublicKey [1]) = Inr True"
proof -
  have "Version cert_v1 \<noteq> CertVersion" "CertKeyType cert_v1 \<noteq> CertKeyType_const"
    by (simp_all add: cert_v1_def CertVersion_def CertKeyType_const_def)
  moreover have "VerifyCertificate toy_eddsa now_2023 blob_v1 (toy_PublicKey [1]) = Inr True"
    using one_signature_v1 not_expired_v1 valid_v1
    by (simp add: VerifyCertificate_eq [OF Decode_blob_v1])
  moreover have "VerifyMulti toy_eddsa now_2023 blob_v1 (toy_PublicKey [1]) = Inr True"
    using not_expired_v1 valid_v1
    by (simp add: VerifyMulti_eq [OF Decode_blob_v1] find_v1)
  ultimately show ?thesis using Decode_blob_v1 by blast
qed

text \<open>
  Claim C5, amended. For every blob that decodes to a certificate whose Version is not
  the expected constant or whose key algorithm is not the supported value, the verifiers
  make no check of the version or of the algorithm and report no failure of that kind.
  \<open>VerifyCertificate\<close> returns the signature-count error, the expired error or the result
  of checking the single signature over the canonical message of the certificate, which
  holds both fields; \<open>VerifyMulti\<close> returns the expired error or the result of checking
  the first entry of the given identity, false when there is none.
\<close>

theorem C5_no_version_check:
  assumes "Decode rawCert zero_Certificate = Inr cert"
    and "Version cert \<noteq> CertVersion \<or> CertKeyType cert \<noteq> CertKeyType_const"
  shows "VerifyCertificate E now rawCert publicKey =
           (if length (Signatures cert) \<noteq> 1 then Inl ErrOneSignatureOnly
            else if Before (expiry cert) now then Inl ErrCertificateExpired
            else Inr (Verify E publicKey (Payload (Signatures cert ! 0))
                       (canonical cert))) \<and>
         VerifyMulti E now rawCert publicKey =
           (if Before (expiry cert) now then Inl ErrCertificateExpired
            else Inr (case find (\<lambda>s. publicKey = Identity s) (Signatures cert) of
                        None \<Rightarrow> False
                      | Some s \<Rightarrow> Verify E publicKey (Payload s) (canonical cert)))"
  using assms(1) by (simp add: VerifyCertificate_eq VerifyMulti_eq)

text \<open>An instance of the amended claim C5, at the certificate \<open>cert_v1\<close>.\<close>

theorem C5_no_version_check_witness:
  "Decode blob_v1 zero_Certificate = Inr cert_v1 \<and>
   Version cert_v1 = 1 \<and> CertKeyType cert_v1 = ''rsa'' \<and>
   VerifyCertificate toy_eddsa now_2023 blob_v1 (toy_PublicKey [1]) =
     Inr (Verify toy_eddsa (toy_PublicKey [1]) (Payload (Signatures cert_v1 ! 0))
           (canonical cert_v1)) \<and>
   VerifyMulti toy_eddsa now_2023 blob_v1 (toy_PublicKey [2]) = Inr False"
proof -
  have v: "Version cert_v1 \<noteq> CertVersion \<or> CertKeyType cert_v1 \<noteq> CertKeyType_const"
    by (simp add: cert_v1_def CertVersion_def)
  have f: "find (\<lambda>s. toy_PublicKey [2] = Identity s) (Signatures cert_v1) = None"
    by (simp add: toy_PublicKey_2) (simp add: cert_v1_def)
  have "Version cert_v1 = 1" "CertKeyType cert_v1 = ''rsa''" by (simp_all add: cert_v1_def)
  with C5_no_version_check [OF Decode_blob_v1 v, of toy_eddsa now_2023 "toy_PublicKey [1]"]
    C5_no_version_check [OF Decode_blob_v1 v, of toy_eddsa now_2023 "toy_PublicKey [2]"]
    one_signature_v1 not_expired_v1 f Decode_blob_v1
  show ?thesis by simp
qed

text \<open>
  Claim C6, as the specification states it: for every blob, \<open>VerifyCertificate\<close> returns
  the expired error exactly when the expiry instant is before the current time. The
  certificate \<open>cert_expired\<close> expired in 1970, and \<open>VerifyCertificate\<close> in 2023 returns
  the signature-count error for it, since it checks the count first.
\<close>

theorem C6_counterexample:
  "Decode blob_expired zero_Certificate = Inr cert_expired \<and>
   Expiration cert_expired = 1 \<and>
   Before (expiry_instant 1) now_2023 \<and>
   VerifyCertificate toy_eddsa now_2023 blob_expired (toy_PublicKey [1]) =
     Inl ErrOneSignatureOnly \<and>
   VerifyCertificate toy_eddsa now_2023 blob_expired (toy_PublicKey [1]) \<noteq>
     Inl ErrCertificateExpired"
proof -
  have e: "Expiration cert_expired = 1" by (simp add: cert_expired_def)
  have "length (Signatures cert_expired) \<noteq> 1" by (simp add: cert_expired_def)
  then have "VerifyCertificate toy_eddsa now_2023 blob_expired (toy_PublicKey [1]) =
      Inl ErrOneSignatureOnly"
    by (simp add: VerifyCertificate_eq [OF Decode_blob_expired])
  with Decode_blob_expired e expired_instant show ?thesis by simp
qed

text \<open>
  Claim C6, amended. For every blob that decodes to a certificate and every current time,
  where the expiration is one whose instant the verifiers compute exactly: \<open>VerifyMulti\<close>
  returns the expired error exactly when the expiry instant, \<open>expirationHours * 3600\<close>
  seconds after the Unix epoch, is before the current time; \<open>VerifyCertificate\<close> returns
  it exactly when, besides, the certificate carries one signature, since it checks the
  count first. An expiry instant equal to the current time is still valid. When the
  certificate is not expired, verification goes on to the signature check.
\<close>

theorem C6_expired_exactly:
  assumes "Decode rawCert zero_Certificate = Inr cert"
    and "exact_expiry (Expiration cert)"
  shows "(VerifyMulti E now rawCert publicKey = Inl ErrCertificateExpired \<longleftrightarrow>
            Before (expiry_instant (Expiration cert)) now) \<and>
         (VerifyCertificate E now rawCert publicKey = Inl ErrCertificateExpired \<longleftrightarrow>
            length (Signatures cert) = 1 \<and> Before (expiry_instant (Expiration cert)) now) \<and>
         (now = expiry_instant (Expiration cert) \<longrightarrow>
            VerifyMulti E now rawCert publicKey \<noteq> Inl ErrCertificateExpired \<and>
            VerifyCertificate E now rawCert publicKey \<noteq> Inl ErrCertificateExpired) \<and>
         (\<not> Before (expiry_instant (Expiration cert)) now \<longrightarrow>
            VerifyMulti E now rawCert publicKey =
              VerifyMulti_range E cert publicKey (Signatures cert) \<and>
            (length (Signatures cert) = 1 \<longrightarrow>
               VerifyCertificate E now rawCert publicKey =
                 Inr (Verify E publicKey (Payload (Signatures cert ! 0))
                       (canonical cert))))"
  using assms(1) expiry_exact [OF assms(2)] Before_irrefl [of now]
  by (auto simp: VerifyCertificate_eq VerifyMulti_eq VerifyMulti_range_eq)

text \<open>
  An instance of the amended claim C6: \<open>VerifyMulti\<close> reports the certificate
  \<open>cert_expired\<close> as expired, \<open>VerifyCertificate\<close> does not.
\<close>

theorem C6_expired_exactly_witness:
  "Decode blob_expired zero_Certificate = Inr cert_expired \<and>
   exact_expiry (Expiration cert_expired) \<and>
   Before (expiry_instant (Expiration cert_expired)) now_2023 \<and>
   length (Signatures cert_expired) = 2 \<and>
   VerifyMulti toy_eddsa now_2023 blob_expired (toy_PublicKey [1]) =
     Inl ErrCertificateExpired \<and>
   VerifyCertificate toy_eddsa now_2023 blob_expired (toy_PublicKey [1]) \<noteq>
     Inl ErrCertificateExpired"
proof -
  have l: "length (Signatures cert_expired) = 2" by (simp add: cert_expired_def)
  with C6_expired_exactly
    [OF Decode_blob_expired exact_expired, of toy_eddsa now_2023 "toy_PublicKey [1]"]
    expired_instant Decode_blob_expired exact_expired
  show ?thesis by simp
qed

text \<open>
  Claim C7. For every blob that decodes to a certificate whose signature list has a
  length other than 1, \<open>VerifyCertificate\<close> returns the signature-count error, whatever
  the signature scheme, the clock and the key are, so that it verifies no signature;
  \<open>VerifyMulti\<close> never returns that error. A certificate that one key creates and another
  co-signs carries two signatures: \<open>VerifyCertificate\<close> returns the count error on it,
  and \<open>VerifyMulti\<close> returns true for the public key of either signer, as long as the
  certificate is not expired.
\<close>

theorem C7_strict_and_multi:
  "(Decode rawCert zero_Certificate = Inr cert \<longrightarrow> length (Signatures cert) \<noteq> 1 \<longrightarrow>
      (\<forall>E' now' publicKey'.
         VerifyCertificate E' now' rawCert publicKey' = Inl ErrOneSignatureOnly)) \<and>
   VerifyMulti E now rawCert publicKey \<noteq> Inl ErrOneSignatureOnly \<and>
   (eddsa_scheme E \<longrightarrow> len64 toSign \<longrightarrow> len64 certType \<longrightarrow> exact_expiry expiration \<longrightarrow>
    \<not> Before (expiry_instant expiration) now \<longrightarrow>
      (\<exists>raw1 raw2.
         CreateCertificate E sk1 toSign certType expiration = Inr raw1 \<and>
         SignMultiCertificate E sk2 raw1 = Inr raw2 \<and>
         VerifyCertificate E now raw2 (PublicKey E sk1) = Inl ErrOneSignatureOnly \<and>
         VerifyCertificate E now raw2 (PublicKey E sk2) = Inl ErrOneSignatureOnly \<and>
         VerifyMulti E now raw2 (PublicKey E sk1) = Inr True \<and>
         VerifyMulti E now raw2 (PublicKey E sk2) = Inr True))"
proof (intro conjI impI allI)
  fix E' now' publicKey'
  assume "Decode rawCert zero_Certificate = Inr cert" "length (Signatures cert) \<noteq> 1"
  then show "VerifyCertificate E' now' rawCert publicKey' = Inl ErrOneSignatureOnly"
    by (simp add: VerifyCertificate_eq)
next
  show "VerifyMulti E now rawCert publicKey \<noteq> Inl ErrOneSignatureOnly"
    by (rule VerifyMulti_no_count_error)
next
  assume "eddsa_scheme E" "len64 toSign" "len64 certType" "exact_expiry expiration"
    "\<not> Before (expiry_instant expiration) now"
  then show "\<exists>raw1 raw2.
      CreateCertificate E sk1 toSign certType expiration = Inr raw1 \<and>
      SignMultiCertificate E sk2 raw1 = Inr raw2 \<and>
      VerifyCertificate E now raw2 (PublicKey E sk1) = Inl ErrOneSignatureOnly \<and>
      VerifyCertificate E now raw2 (PublicKey E sk2) = Inl ErrOneSignatureOnly \<and>
      VerifyMulti E now raw2 (PublicKey E sk1) = Inr True \<and>
      VerifyMulti E now raw2 (PublicKey E sk2) = Inr True"
    by (rule two_signatures)
qed

text \<open>
  An instance of claim C7: the expired certificate \<open>cert_expired\<close> of two signatures under
  \<open>VerifyCertificate\<close>, and a certificate that the private key \<open>[1]\<close> creates and \<open>[2]\<close>
  co-signs, verified in 2023.
\<close>

theorem C7_strict_and_multi_witness:
  "Decode blob_expired zero_Certificate = Inr cert_expired \<and>
   length (Signatures cert_expired) = 2 \<and>
   VerifyCertificate toy_eddsa now_2023 blob_expired (toy_PublicKey [1]) =
     Inl ErrOneSignatureOnly \<and>
   eddsa_scheme toy_eddsa \<and> len64 [42 :: byte] \<and> len64 ''authority'' \<and>
   exact_expiry 5259504 \<and> \<not> Before (expiry_instant 5259504) now_2023 \<and>
   (\<exists>raw1 raw2.
      CreateCertificate toy_eddsa [1] [42] ''authority'' 5259504 = Inr raw1 \<and>
      SignMultiCertificate toy_eddsa [2] raw1 = Inr raw2 \<and>
      VerifyCertificate toy_eddsa now_2023 raw2 (PublicKey toy_eddsa [1]) =
        Inl ErrOneSignatureOnly \<and>
      VerifyCertificate toy_eddsa now_2023 raw2 (PublicKey toy_eddsa [2]) =
        Inl ErrOneSignatureOnly \<and>
      VerifyMulti toy_eddsa now_2023 raw2 (PublicKey toy_eddsa [1]) = Inr True \<and>
      VerifyMulti toy_eddsa now_2023 raw2 (PublicKey toy_eddsa [2]) = Inr True)"
proof -
  have l: "length (Signatures cert_expired) = 2" by (simp add: cert_expired_def)
  then have l': "length (Signatures cert_expired) \<noteq> 1" by simp
  have a: "len64 [42 :: byte]" and b: "len64 ''authority''" by (simp_all add: len64_def)
  have c: "exact_expiry 5259504" by (simp add: exact_expiry_def)
  have d: "\<not> Before (expiry_instant 5259504) now_2023"
    by (simp add: expiry_instant_def Before_def now_2023_def)
  note C7 = C7_strict_and_multi
    [of blob_expired cert_expired toy_eddsa now_2023 "toy_PublicKey [1]" "[42]"
        "''authority''" 5259504 "[1]" "[2]"]
  from C7 Decode_blob_expired l'
  have "VerifyCertificate toy_eddsa now_2023 blob_expired (toy_PublicKey [1]) =
      Inl ErrOneSignatureOnly"
    by blast
  moreover from C7 toy_scheme a b c d
  have "\<exists>raw1 raw2.
      CreateCertificate toy_eddsa [1] [42] ''authority'' 5259504 = Inr raw1 \<and>
      SignMultiCertificate toy_eddsa [2] raw1 = Inr raw2 \<and>
      VerifyCertificate toy_eddsa now_2023 raw2 (PublicKey toy_eddsa [1]) =
        Inl ErrOneSignatureOnly \<and>
      VerifyCertificate toy_eddsa now_2023 raw2 (PublicKey toy_eddsa [2]) =
        Inl ErrOneSignatureOnly \<and>
      VerifyMulti toy_eddsa now_2023 raw2 (PublicKey toy_eddsa [1]) = Inr True \<and>
      VerifyMulti toy_eddsa now_2023 raw2 (PublicKey toy_eddsa [2]) = Inr True"
    by blast
  ultimately show ?thesis
    using Decode_blob_expired l toy_scheme a b c d by blast
qed

end
